theory Spec2Isabelle
  imports Main "HOL-Library.Word"
begin

section \<open>Data model of shadowsocks/core.py\<close>

type_synonym byte = "8 word"
type_synonym bytes = "byte list"

text \<open>A network endpoint as asyncio reports it: the pair (host, port).\<close>

type_synonym endpoint = "string \<times> int"

text \<open>The two constants of the module \<open>protocol_flag\<close> that core.py compares against.\<close>

datatype transport_protocol = TRANSPORT_TCP | TRANSPORT_UDP

text \<open>The five stage constants of \<open>LocalHandler\<close>.\<close>

datatype stage = STAGE_INIT | STAGE_CONNECT | STAGE_STREAM | STAGE_DESTROY | STAGE_ERROR

fun stage_code :: "stage \<Rightarrow> int" where
  "stage_code STAGE_INIT = 0"
| "stage_code STAGE_CONNECT = 1"
| "stage_code STAGE_STREAM = 2"
| "stage_code STAGE_DESTROY = - 1"
| "stage_code STAGE_ERROR = 255"

text \<open>
  Exceptions that leave a callback or the handshake coroutine uncaught. A result is
  either \<open>Ok\<close> with the new state or \<open>Raised\<close> with the exception and the state at
  the point of the raise (mutations made before the raise stay).
\<close>

datatype error = AttributeError | AssertionError | AddrNotValid | OSError | StructError

datatype 'a result = Ok 'a | Raised error 'a

fun state_of :: "'a result \<Rightarrow> 'a" where
  "state_of (Ok w) = w"
| "state_of (Raised e w) = w"

subsection \<open>External collaborators, as call recorders\<close>

text \<open>
  An asyncio transport is outside the repository. The model keeps what core.py does to
  it: the number of \<open>close()\<close> calls, the arguments of every \<open>write(data)\<close> call in
  order, and the arguments of every \<open>sendto(data[, addr])\<close> call in order.
  \<open>is_closing()\<close> is true once \<open>close()\<close> has been called; a transport that
  starts closing by itself is not part of the model.
\<close>

record transport =
  t_close_calls :: nat
  t_writes :: "bytes list"
  t_sendtos :: "(bytes \<times> endpoint option) list"

definition new_transport :: transport where
  "new_transport = \<lparr>t_close_calls = 0, t_writes = [], t_sendtos = []\<rparr>"

definition is_closing :: "transport \<Rightarrow> bool" where
  "is_closing t = (0 < t_close_calls t)"

definition transport_close :: "transport \<Rightarrow> transport" where
  "transport_close t = t\<lparr>t_close_calls := Suc (t_close_calls t)\<rparr>"

definition transport_write :: "bytes \<Rightarrow> transport \<Rightarrow> transport" where
  "transport_write d t = t\<lparr>t_writes := t_writes t @ [d]\<rparr>"

definition transport_sendto :: "bytes \<Rightarrow> endpoint option \<Rightarrow> transport \<Rightarrow> transport" where
  "transport_sendto d a t = t\<lparr>t_sendtos := t_sendtos t @ [(d, a)]\<rparr>"

text \<open>
  The cipher object of a Session (class \<open>CipherMan\<close>, outside core.py): the opaque
  \<open>access_user\<close> handle, the arguments of every \<open>incr_user_tcp_num\<close> call and of every
  \<open>record_user_ip\<close> call. The outcome of one \<open>decrypt\<close> call is an input of the model.
\<close>

record cipher =
  c_access_user :: nat
  c_tcp_num_calls :: "int list"
  c_recorded_ips :: "endpoint option list"

definition incr_user_tcp_num :: "int \<Rightarrow> cipher \<Rightarrow> cipher" where
  "incr_user_tcp_num d c = c\<lparr>c_tcp_num_calls := c_tcp_num_calls c @ [d]\<rparr>"

definition record_user_ip :: "endpoint option \<Rightarrow> cipher \<Rightarrow> cipher" where
  "record_user_ip p c = c\<lparr>c_recorded_ips := c_recorded_ips c @ [p]\<rparr>"

datatype decrypt_outcome = DecryptRaises | Decrypted bytes

subsection \<open>The objects of one Session\<close>

text \<open>
  \<open>LocalHandler\<close>. \<open>l_remote\<close> says whether \<open>self._remote\<close> has been assigned: the
  only object ever assigned to it is the \<open>RemoteTCP\<close> made by this Session's own
  handshake, kept in the field \<open>remote_tcp\<close> of the world below. \<open>l_stage_log\<close> lists
  every value assigned to \<open>self._stage\<close>, oldest first; \<open>l_stage\<close> is the current one.
\<close>

record local_handler =
  l_port :: nat
  l_cipher :: "cipher option"
  l_stage :: "stage option"
  l_stage_log :: "stage list"
  l_peername :: "endpoint option"
  l_remote :: bool
  l_transport :: "transport option"
  l_transport_protocol :: "transport_protocol option"
  l_transport_protocol_human :: "string option"
  l_is_closing :: bool
  l_connect_buffer :: bytes

record remote_tcp =
  rt_peername :: "endpoint option"
  rt_transport :: "transport option"
  rt_ready :: bool
  rt_is_closing :: bool

text \<open>\<open>RemoteUDP\<close>. \<open>ru_local\<close> is false once \<open>del self.local\<close> has run.\<close>

record remote_udp =
  ru_data :: bytes
  ru_local :: bool
  ru_peername :: "endpoint option"
  ru_transport :: "transport option"
  ru_is_closing :: bool

text \<open>
  One Session with its Remote objects and the two process-wide metrics.
  \<open>connecting\<close> is the suspended handshake coroutine: \<open>Some (host, port)\<close> while
  \<open>_handle_stage_init\<close> waits in \<open>await loop.create_connection(...)\<close>.
\<close>

record world =
  session :: local_handler
  remote_tcp :: "remote_tcp option"
  remote_udp :: "remote_udp option"
  connecting :: "(string \<times> int) option"
  ACTIVE_CONNECTION_COUNT :: int
  CONNECTION_MADE_COUNT :: int

section \<open>LocalHandler\<close>

definition LocalHandler_init :: "nat \<Rightarrow> local_handler" where
  "LocalHandler_init p =
     \<lparr>l_port = p, l_cipher = None, l_stage = None, l_stage_log = [], l_peername = None,
      l_remote = False, l_transport = None, l_transport_protocol = None,
      l_transport_protocol_human = None, l_is_closing = False, l_connect_buffer = []\<rparr>"

definition set_stage :: "stage \<Rightarrow> world \<Rightarrow> world" where
  "set_stage st w =
     w\<lparr>session := (session w)\<lparr>l_stage := Some st, l_stage_log := l_stage_log (session w) @ [st]\<rparr>\<rparr>"

definition inc_active :: "int \<Rightarrow> world \<Rightarrow> world" where
  "inc_active d w = w\<lparr>ACTIVE_CONNECTION_COUNT := ACTIVE_CONNECTION_COUNT w + d\<rparr>"

definition inc_made :: "world \<Rightarrow> world" where
  "inc_made w = w\<lparr>CONNECTION_MADE_COUNT := CONNECTION_MADE_COUNT w + 1\<rparr>"

text \<open>
  The part of \<open>LocalHandler.close\<close> after the latch test and before the call of the
  remote's close: set the latch, \<open>ACTIVE_CONNECTION_COUNT.inc(-1)\<close>, and for TCP close
  the transport and call \<open>incr_user_tcp_num(-1)\<close>, each only when the object is set.
\<close>

definition local_close_effects :: "world \<Rightarrow> world" where
  "local_close_effects w =
     (let w1 = inc_active (- 1) (w\<lparr>session := (session w)\<lparr>l_is_closing := True\<rparr>\<rparr>)
      in if l_transport_protocol (session w1) = Some TRANSPORT_TCP
         then w1\<lparr>session := (session w1)
                   \<lparr>l_transport := map_option transport_close (l_transport (session w1)),
                    l_cipher := map_option (incr_user_tcp_num (- 1)) (l_cipher (session w1))\<rparr>\<rparr>
         else w1)"

text \<open>
  The part of \<open>RemoteTCP.close\<close> after the latch test and before \<open>self.local.close()\<close>.
\<close>

definition remote_close_effects :: "remote_tcp \<Rightarrow> world \<Rightarrow> world" where
  "remote_close_effects r w =
     inc_active (- 1)
       (w\<lparr>remote_tcp := Some (r\<lparr>rt_is_closing := True,
                                 rt_transport := map_option transport_close (rt_transport r)\<rparr>)\<rparr>)"

text \<open>
  \<open>LocalHandler.close\<close> and \<open>RemoteTCP.close\<close> call each other; the two latches stop
  the recursion. \<open>LocalHandler.close\<close> assigns the stage before it tests its latch.
  \<open>self._remote and self._remote.close()\<close> calls the remote's close when \<open>_remote\<close>
  is assigned.
\<close>

function LocalHandler_close :: "world \<Rightarrow> world"
  and RemoteTCP_close :: "world \<Rightarrow> world" where
  "LocalHandler_close w =
     (let w1 = set_stage STAGE_DESTROY w
      in if l_is_closing (session w1) then w1
         else let w2 = local_close_effects w1
              in if l_remote (session w2) then RemoteTCP_close w2 else w2)"
| "RemoteTCP_close w =
     (case remote_tcp w of
        None \<Rightarrow> w
      | Some r \<Rightarrow>
          if rt_is_closing r then w
          else LocalHandler_close (remote_close_effects r w))"
  by pat_completeness auto
termination
  by (relation "measure (\<lambda>x. case x of
         Inl w \<Rightarrow> (if l_is_closing (session w) then 0 else 2)
                + (case remote_tcp w of None \<Rightarrow> 0 | Some r \<Rightarrow> if rt_is_closing r then 0 else 2)
       | Inr w \<Rightarrow> (if l_is_closing (session w) then 0 else 2)
                + (case remote_tcp w of None \<Rightarrow> 0 | Some r \<Rightarrow> if rt_is_closing r then 0 else 2) + 1)")
     (auto simp: local_close_effects_def remote_close_effects_def set_stage_def inc_active_def
           Let_def split: option.splits)

text \<open>
  \<open>LocalHandler.write\<close>: on TCP a write to the client transport unless it is closing,
  on UDP a \<open>sendto\<close> to the peer. Calling a method of \<open>self._transport\<close> while it is
  \<open>None\<close> raises AttributeError.
\<close>

definition LocalHandler_write :: "bytes \<Rightarrow> world \<Rightarrow> world result" where
  "LocalHandler_write data w =
     (if l_transport_protocol (session w) = Some TRANSPORT_TCP
      then (case l_transport (session w) of
              None \<Rightarrow> Raised AttributeError w
            | Some t \<Rightarrow>
                if is_closing t then Ok w
                else Ok (w\<lparr>session := (session w)\<lparr>l_transport := Some (transport_write data t)\<rparr>\<rparr>))
      else (case l_transport (session w) of
              None \<Rightarrow> Raised AttributeError w
            | Some t \<Rightarrow>
                Ok (w\<lparr>session := (session w)
                        \<lparr>l_transport := Some (transport_sendto data (l_peername (session w)) t)\<rparr>\<rparr>)))"

definition init_transport ::
  "transport option \<Rightarrow> endpoint option \<Rightarrow> transport_protocol \<Rightarrow> world \<Rightarrow> world" where
  "init_transport tr peer proto w =
     (let w1 = set_stage STAGE_INIT w
      in w1\<lparr>session := (session w1)
              \<lparr>l_transport := tr, l_peername := peer, l_transport_protocol := Some proto,
               l_transport_protocol_human :=
                 Some (if proto = TRANSPORT_TCP then ''tcp'' else ''udp'')\<rparr>\<rparr>)"

text \<open>
  \<open>CipherMan.get_cipher_by_port\<close> is outside core.py: it is the parameter \<open>gcbp\<close>,
  returning \<open>None\<close> where the Python returns \<open>None\<close>.
\<close>

definition init_cipher ::
  "(nat \<Rightarrow> transport_protocol option \<Rightarrow> cipher option) \<Rightarrow> world \<Rightarrow> world" where
  "init_cipher gcbp w =
     w\<lparr>session := (session w)
          \<lparr>l_cipher := gcbp (l_port (session w)) (l_transport_protocol (session w))\<rparr>\<rparr>"

definition handle_connection_made ::
  "(nat \<Rightarrow> transport_protocol option \<Rightarrow> cipher option) \<Rightarrow> transport_protocol \<Rightarrow>
   transport option \<Rightarrow> endpoint option \<Rightarrow> world \<Rightarrow> world" where
  "handle_connection_made gcbp proto tr peer w = init_cipher gcbp (init_transport tr peer proto w)"

subsection \<open>RemoteTCP.write and the stage handlers\<close>

definition RemoteTCP_write :: "bytes \<Rightarrow> world \<Rightarrow> world result" where
  "RemoteTCP_write data w =
     (case remote_tcp w of
        None \<Rightarrow> Raised AttributeError w
      | Some r \<Rightarrow>
          (case rt_transport r of
             None \<Rightarrow> Raised AttributeError w
           | Some t \<Rightarrow>
               if is_closing t then Ok w
               else Ok (w\<lparr>remote_tcp := Some (r\<lparr>rt_transport := Some (transport_write data t)\<rparr>)\<rparr>)))"

definition handle_stage_stream :: "bytes \<Rightarrow> world \<Rightarrow> world result" where
  "handle_stage_stream data w =
     (if l_remote (session w) then RemoteTCP_write data w else Raised AttributeError w)"

text \<open>
  \<open>_handle_stage_connect\<close>: buffer while \<open>self._remote\<close> is unassigned or not ready,
  otherwise move to STREAM and forward.
\<close>

definition remote_not_ready :: "world \<Rightarrow> bool" where
  "remote_not_ready w =
     (\<not> l_remote (session w) \<or> (case remote_tcp w of None \<Rightarrow> True | Some r \<Rightarrow> \<not> rt_ready r))"

definition handle_stage_connect :: "bytes \<Rightarrow> world \<Rightarrow> world result" where
  "handle_stage_connect data w =
     (if remote_not_ready w
      then Ok (w\<lparr>session := (session w)\<lparr>l_connect_buffer := l_connect_buffer (session w) @ data\<rparr>\<rparr>)
      else handle_stage_stream data (set_stage STAGE_STREAM w))"

text \<open>
  \<open>parse_header\<close> (module \<open>utils\<close>) is a parameter; it returns four fields, each
  possibly \<open>None\<close>. \<open>all([...])\<close> asks each field to be truthy: not \<open>None\<close>, not 0,
  not the empty string.
\<close>

type_synonym header = "int option \<times> string option \<times> int option \<times> int option"

fun all_fields :: "header \<Rightarrow> (int \<times> string \<times> int \<times> int) option" where
  "all_fields (Some a, Some h, Some p, Some n) =
     (if a \<noteq> 0 \<and> h \<noteq> [] \<and> p \<noteq> 0 \<and> n \<noteq> 0 then Some (a, h, p, n) else None)"
| "all_fields (_, _, _, _) = None"

text \<open>Python's \<open>data[n:]\<close>, also for a negative \<open>n\<close>, which counts from the end.\<close>

definition slice_from :: "int \<Rightarrow> 'a list \<Rightarrow> 'a list" where
  "slice_from n xs = (if 0 \<le> n then drop (nat n) xs else drop (length xs - nat (- n)) xs)"

text \<open>
  \<open>_handle_stage_init\<close> from its start to its first suspension. On TCP it ends
  waiting in \<open>await loop.create_connection\<close>. On UDP the expression
  \<open>self.create_datagram_endpoint\<close> is evaluated inside the \<open>try\<close>; \<open>LocalHandler\<close> has
  no such attribute, so AttributeError is raised there and the \<open>except Exception\<close>
  branch runs: stage ERROR, close. No \<open>RemoteUDP\<close> is constructed.
\<close>

definition handle_stage_init :: "(bytes \<Rightarrow> header) \<Rightarrow> bytes \<Rightarrow> world \<Rightarrow> world result" where
  "handle_stage_init parse_header data w =
     (case all_fields (parse_header data) of
        None \<Rightarrow> Ok (LocalHandler_close w)
      | Some (addr_type, dst_addr, dst_port, header_length) \<Rightarrow>
          (let payload = slice_from header_length data
           in if l_transport_protocol (session w) = Some TRANSPORT_TCP
              then (case handle_stage_connect payload (set_stage STAGE_CONNECT w) of
                      Raised e w' \<Rightarrow> Raised e w'
                    | Ok w' \<Rightarrow> Ok (w'\<lparr>connecting := Some (dst_addr, dst_port)\<rparr>))
              else Ok (LocalHandler_close (set_stage STAGE_ERROR w))))"

text \<open>
  The rest of \<open>_handle_stage_init\<close> on TCP, after the await: the \<open>except\<close> branch when
  \<open>create_connection\<close> raised, the \<open>else\<close> branch when it returned.
\<close>

definition connect_failed :: "world \<Rightarrow> world" where
  "connect_failed w = LocalHandler_close (set_stage STAGE_ERROR (w\<lparr>connecting := None\<rparr>))"

definition connect_returned :: "world \<Rightarrow> world result" where
  "connect_returned w =
     (let w1 = w\<lparr>connecting := None, session := (session w)\<lparr>l_remote := True\<rparr>\<rparr>
      in case l_cipher (session w1) of
           None \<Rightarrow> Raised AttributeError w1
         | Some c \<Rightarrow>
             Ok (w1\<lparr>session := (session w1)
                     \<lparr>l_cipher := Some (record_user_ip (l_peername (session w1)) c)\<rparr>\<rparr>))"

text \<open>
  \<open>handle_data_received\<close>, given the outcome of \<open>self.cipher.decrypt(data)\<close>. With no
  cipher the attribute access raises inside the \<open>try\<close> and the handler closes. In
  stage INIT the handler creates the task of \<open>_handle_stage_init\<close>; the task's first
  step runs before the loop polls the sockets again, so it is taken here.
\<close>

definition handle_data_received ::
  "(bytes \<Rightarrow> header) \<Rightarrow> decrypt_outcome \<Rightarrow> world \<Rightarrow> world result" where
  "handle_data_received parse_header dec w =
     (case l_cipher (session w) of
        None \<Rightarrow> Ok (LocalHandler_close w)
      | Some c \<Rightarrow>
          (case dec of
             DecryptRaises \<Rightarrow> Ok (LocalHandler_close w)
           | Decrypted data \<Rightarrow>
               if data = [] then Ok w
               else (case l_stage (session w) of
                       Some STAGE_INIT \<Rightarrow> handle_stage_init parse_header data w
                     | Some STAGE_CONNECT \<Rightarrow> handle_stage_connect data w
                     | Some STAGE_STREAM \<Rightarrow> handle_stage_stream data w
                     | Some STAGE_ERROR \<Rightarrow> Ok (LocalHandler_close w)
                     | Some STAGE_DESTROY \<Rightarrow> Ok (LocalHandler_close w)
                     | None \<Rightarrow> Ok w)))"

definition handle_eof_received :: "world \<Rightarrow> world" where
  "handle_eof_received w = LocalHandler_close w"

definition handle_connection_lost :: "world \<Rightarrow> world" where
  "handle_connection_lost w = LocalHandler_close w"

section \<open>LocalTCP\<close>

definition fresh_world :: "nat \<Rightarrow> int \<Rightarrow> int \<Rightarrow> world" where
  "fresh_world p active made =
     \<lparr>session = LocalHandler_init p, remote_tcp = None, remote_udp = None, connecting = None,
      ACTIVE_CONNECTION_COUNT = active, CONNECTION_MADE_COUNT = made\<rparr>"

text \<open>
  \<open>LocalTCP.connection_made\<close>, on the handler that \<open>_init_handler\<close> has just made.
\<close>

definition LocalTCP_connection_made ::
  "(nat \<Rightarrow> transport_protocol option \<Rightarrow> cipher option) \<Rightarrow> transport \<Rightarrow> endpoint option \<Rightarrow>
   world \<Rightarrow> world" where
  "LocalTCP_connection_made gcbp tr peer w =
     inc_active 1 (inc_made (handle_connection_made gcbp TRANSPORT_TCP (Some tr) peer w))"

section \<open>RemoteTCP\<close>

text \<open>
  \<open>RemoteTCP(self)\<close>: the constructor reads \<open>local_handler.cipher.access_user\<close>, which
  raises AttributeError when the Session has no cipher.
\<close>

definition RemoteTCP_init :: "world \<Rightarrow> world result" where
  "RemoteTCP_init w =
     (case l_cipher (session w) of
        None \<Rightarrow> Raised AttributeError w
      | Some c \<Rightarrow>
          Ok (w\<lparr>remote_tcp := Some \<lparr>rt_peername = None, rt_transport = None,
                                    rt_ready = False, rt_is_closing = False\<rparr>\<rparr>))"

definition RemoteTCP_connection_made :: "transport \<Rightarrow> endpoint option \<Rightarrow> world \<Rightarrow> world" where
  "RemoteTCP_connection_made tr peer w =
     (case remote_tcp w of
        None \<Rightarrow> w
      | Some r \<Rightarrow>
          inc_active 1 (inc_made
            (w\<lparr>remote_tcp := Some (r\<lparr>rt_transport :=
                                        Some (transport_write (l_connect_buffer (session w)) tr),
                                      rt_peername := peer, rt_ready := True\<rparr>)\<rparr>)))"

text \<open>\<open>encrypt\<close> of the Remote's own cipher is the parameter \<open>enc\<close>.\<close>

definition RemoteTCP_data_received :: "(bytes \<Rightarrow> bytes) \<Rightarrow> bytes \<Rightarrow> world \<Rightarrow> world result" where
  "RemoteTCP_data_received enc data w = LocalHandler_write (enc data) w"

definition RemoteTCP_eof_received :: "world \<Rightarrow> world" where
  "RemoteTCP_eof_received w = RemoteTCP_close w"

definition RemoteTCP_connection_lost :: "world \<Rightarrow> world" where
  "RemoteTCP_connection_lost w = RemoteTCP_close w"

section \<open>RemoteUDP\<close>

definition RemoteUDP_init :: "bytes \<Rightarrow> world \<Rightarrow> world result" where
  "RemoteUDP_init data w =
     (case l_cipher (session w) of
        None \<Rightarrow> Raised AttributeError w
      | Some c \<Rightarrow>
          Ok (w\<lparr>remote_udp := Some \<lparr>ru_data = data, ru_local = True, ru_peername = None,
                                    ru_transport = None, ru_is_closing = False\<rparr>\<rparr>))"

definition RemoteUDP_write :: "bytes \<Rightarrow> remote_udp \<Rightarrow> remote_udp" where
  "RemoteUDP_write data r =
     (case ru_transport r of
        None \<Rightarrow> r
      | Some t \<Rightarrow>
          if is_closing t then r
          else r\<lparr>ru_transport := Some (transport_sendto data None t)\<rparr>)"

text \<open>
  \<open>RemoteUDP.close\<close>: the latch, the transport, then \<open>del self.local\<close>, which raises
  AttributeError when the attribute is already gone. The metrics and the Session are
  not touched.
\<close>

definition RemoteUDP_close :: "world \<Rightarrow> world result" where
  "RemoteUDP_close w =
     (case remote_udp w of
        None \<Rightarrow> Ok w
      | Some r \<Rightarrow>
          if ru_is_closing r then Ok w
          else (let r1 = r\<lparr>ru_is_closing := True,
                           ru_transport := map_option transport_close (ru_transport r)\<rparr>
                in if ru_local r1
                   then Ok (w\<lparr>remote_udp := Some (r1\<lparr>ru_local := False\<rparr>)\<rparr>)
                   else Raised AttributeError (w\<lparr>remote_udp := Some r1\<rparr>)))"

definition RemoteUDP_connection_made :: "transport \<Rightarrow> endpoint option \<Rightarrow> world \<Rightarrow> world" where
  "RemoteUDP_connection_made tr peer w =
     (case remote_udp w of
        None \<Rightarrow> w
      | Some r \<Rightarrow>
          w\<lparr>remote_udp :=
              Some (RemoteUDP_write (ru_data r) (r\<lparr>ru_transport := Some tr, ru_peername := peer\<rparr>))\<rparr>)"

text \<open>
  \<open>socket.inet_pton\<close> is the parameter \<open>pton\<close>: \<open>None\<close> where it raises OSError.
  \<open>struct.pack("!H", p)\<close> gives the two bytes of \<open>p\<close>, high byte first, and raises
  outside 0..65535.
\<close>

datatype address_family = AF_INET | AF_INET6

definition pack_H :: "int \<Rightarrow> bytes option" where
  "pack_H p = (if 0 \<le> p \<and> p \<le> 65535
               then Some [word_of_int (p div 256), word_of_int (p mod 256)] else None)"

text \<open>
  The end of \<open>RemoteUDP.datagram_received\<close>, from \<open>struct.pack\<close> on: the reply is
  \<open>b"\x01" + addr + port + data\<close>, encrypted and handed to \<open>self.local.write\<close>.
\<close>

definition udp_reply ::
  "(bytes \<Rightarrow> bytes) \<Rightarrow> bytes \<Rightarrow> int \<Rightarrow> bytes \<Rightarrow> remote_udp \<Rightarrow> world \<Rightarrow> world result" where
  "udp_reply enc addr bind_port data r w =
     (case pack_H bind_port of
        None \<Rightarrow> Raised StructError w
      | Some port \<Rightarrow>
          if ru_local r then LocalHandler_write (enc ([1] @ addr @ port @ data)) w
          else Raised AttributeError w)"

definition RemoteUDP_datagram_received ::
  "(bytes \<Rightarrow> bytes) \<Rightarrow> (address_family \<Rightarrow> string \<Rightarrow> bytes option) \<Rightarrow> bytes \<Rightarrow> endpoint \<Rightarrow>
   world \<Rightarrow> world result" where
  "RemoteUDP_datagram_received enc pton data peername w =
     (case remote_udp w of
        None \<Rightarrow> Ok w
      | Some r \<Rightarrow>
          if ru_peername r \<noteq> Some peername then Raised AssertionError w
          else (let bind_addr = fst peername; bind_port = snd peername
                in if CHR ''.'' \<in> set bind_addr
                   then (case pton AF_INET bind_addr of
                           None \<Rightarrow> Raised OSError w
                         | Some addr \<Rightarrow> udp_reply enc addr bind_port data r w)
                   else if CHR '':'' \<in> set bind_addr
                   then (case pton AF_INET6 bind_addr of
                           None \<Rightarrow> Raised OSError w
                         | Some addr \<Rightarrow> udp_reply enc addr bind_port data r w)
                   else Raised AddrNotValid w))"

definition RemoteUDP_error_received :: "world \<Rightarrow> world result" where
  "RemoteUDP_error_received w = RemoteUDP_close w"

definition RemoteUDP_connection_lost :: "world \<Rightarrow> world result" where
  "RemoteUDP_connection_lost w = RemoteUDP_close w"

section \<open>LocalUDP\<close>

text \<open>
  \<open>LocalUDP\<close> with its dictionary \<open>_protocols\<close> from client endpoint to handler, and
  beside it the two metrics. A handler met here has no Remote object: \<open>_remote\<close> is
  assigned on the TCP path only, and the UDP path constructs none. The handlers share
  the acceptor's socket; each handler's \<open>l_transport\<close> records the calls that handler
  made on it.
\<close>

record local_udp =
  u_port :: nat
  u_protocols :: "endpoint \<rightharpoonup> local_handler"
  u_transport :: "transport option"
  u_active :: int
  u_made :: int

definition session_world :: "local_handler \<Rightarrow> int \<Rightarrow> int \<Rightarrow> world" where
  "session_world h active made =
     \<lparr>session = h, remote_tcp = None, remote_udp = None, connecting = None,
      ACTIVE_CONNECTION_COUNT = active, CONNECTION_MADE_COUNT = made\<rparr>"

definition LocalUDP_datagram_received ::
  "(nat \<Rightarrow> transport_protocol option \<Rightarrow> cipher option) \<Rightarrow> (bytes \<Rightarrow> header) \<Rightarrow>
   decrypt_outcome \<Rightarrow> endpoint \<Rightarrow> local_udp \<Rightarrow> local_udp" where
  "LocalUDP_datagram_received gcbp parse_header dec peername u =
     (let w = (case u_protocols u peername of
                 Some handler \<Rightarrow> session_world handler (u_active u) (u_made u)
               | None \<Rightarrow>
                   handle_connection_made gcbp TRANSPORT_UDP (u_transport u) (Some peername)
                     (fresh_world (u_port u) (u_active u) (u_made u)));
          w' = state_of (handle_data_received parse_header dec w)
      in u\<lparr>u_protocols := (u_protocols u)(peername \<mapsto> session w'),
           u_active := ACTIVE_CONNECTION_COUNT w', u_made := CONNECTION_MADE_COUNT w'\<rparr>)"

section \<open>Events of one TCP Session\<close>

text \<open>
  The callbacks and coroutine steps that the event loop runs for one Session after
  \<open>LocalTCP.connection_made\<close>, each to completion. \<open>RemoteConnectionMade\<close> is the
  loop constructing \<open>RemoteTCP(self)\<close> and calling its \<open>connection_made\<close>; a
  constructor that raises makes \<open>create_connection\<close> raise. \<open>ConnectReturned\<close> is the
  later step in which the await returns and \<open>self._remote\<close> is assigned; callbacks
  can run between the two.
\<close>

datatype event =
    LocalData decrypt_outcome
  | LocalEof
  | LocalConnectionLost
  | ConnectFailed
  | RemoteConnectionMade "endpoint option"
  | ConnectReturned
  | RemoteData bytes
  | RemoteEof
  | RemoteConnectionLost

fun step :: "(bytes \<Rightarrow> header) \<Rightarrow> (bytes \<Rightarrow> bytes) \<Rightarrow> event \<Rightarrow> world \<Rightarrow> world result" where
  "step ph enc (LocalData dec) w = handle_data_received ph dec w"
| "step ph enc LocalEof w = Ok (handle_eof_received w)"
| "step ph enc LocalConnectionLost w = Ok (handle_connection_lost w)"
| "step ph enc ConnectFailed w = Ok (connect_failed w)"
| "step ph enc (RemoteConnectionMade peer) w =
     (case RemoteTCP_init w of
        Raised e w' \<Rightarrow> Ok (connect_failed w')
      | Ok w' \<Rightarrow> Ok (RemoteTCP_connection_made new_transport peer w'))"
| "step ph enc ConnectReturned w = connect_returned w"
| "step ph enc (RemoteData data) w = RemoteTCP_data_received enc data w"
| "step ph enc RemoteEof w = Ok (RemoteTCP_eof_received w)"
| "step ph enc RemoteConnectionLost w = Ok (RemoteTCP_connection_lost w)"

text \<open>
  Which events the loop can deliver in a state: the two outcomes of the connect only
  while the coroutine waits, the return only after \<open>connection_made\<close>, the Remote's
  callbacks only once the Remote exists.
\<close>

fun enabled :: "event \<Rightarrow> world \<Rightarrow> bool" where
  "enabled ConnectFailed w = (connecting w \<noteq> None \<and> remote_tcp w = None)"
| "enabled (RemoteConnectionMade peer) w = (connecting w \<noteq> None \<and> remote_tcp w = None)"
| "enabled ConnectReturned w = (connecting w \<noteq> None \<and> remote_tcp w \<noteq> None)"
| "enabled (RemoteData data) w = (remote_tcp w \<noteq> None)"
| "enabled RemoteEof w = (remote_tcp w \<noteq> None)"
| "enabled RemoteConnectionLost w = (remote_tcp w \<noteq> None)"
| "enabled _ w = True"

fun run :: "(bytes \<Rightarrow> header) \<Rightarrow> (bytes \<Rightarrow> bytes) \<Rightarrow> event list \<Rightarrow> world \<Rightarrow> world" where
  "run ph enc [] w = w"
| "run ph enc (e # es) w = run ph enc es (state_of (step ph enc e w))"

section \<open>Concrete collaborators for the examples\<close>

text \<open>
  A cipher factory that always finds a cipher, and a header parser that accepts the
  IPv4 form only: the byte 0x01, four address bytes, two port bytes (7 bytes in all).
\<close>

definition example_cipher :: cipher where
  "example_cipher = \<lparr>c_access_user = 0, c_tcp_num_calls = [], c_recorded_ips = []\<rparr>"

definition example_gcbp :: "nat \<Rightarrow> transport_protocol option \<Rightarrow> cipher option" where
  "example_gcbp p proto = Some example_cipher"

definition example_parse_header :: "bytes \<Rightarrow> header" where
  "example_parse_header d =
     (if 7 \<le> length d \<and> hd d = 1
      then (Some 1, Some ''93.184.216.34'', Some 80, Some 7)
      else (None, None, None, None))"

definition example_header :: bytes where
  "example_header = [1, 93, 184, 216, 34, 0, 80]"

definition client_peer :: endpoint where
  "client_peer = (''10.0.0.2'', 40000)"

definition tcp_start :: world where
  "tcp_start =
     LocalTCP_connection_made example_gcbp new_transport (Some client_peer) (fresh_world 8388 0 0)"

definition udp_start :: world where
  "udp_start =
     handle_connection_made example_gcbp TRANSPORT_UDP (Some new_transport) (Some client_peer)
       (fresh_world 8388 0 0)"

section \<open>Notions used to state the properties\<close>

text \<open>
  The order of the stages: unset, INIT, CONNECT, STREAM, ERROR, DESTROY.
\<close>

fun stage_rank :: "stage option \<Rightarrow> nat" where
  "stage_rank None = 0"
| "stage_rank (Some STAGE_INIT) = 1"
| "stage_rank (Some STAGE_CONNECT) = 2"
| "stage_rank (Some STAGE_STREAM) = 3"
| "stage_rank (Some STAGE_ERROR) = 4"
| "stage_rank (Some STAGE_DESTROY) = 5"

text \<open>
  Calls of \<open>close\<close> on the three kinds of half, and sequences of them. \<open>closed_halves\<close>
  counts the Session and the RemoteTCP whose latch is set; \<open>user_tcp_calls\<close> is the
  list of arguments \<open>incr_user_tcp_num\<close> has received; \<open>forget_stage\<close> blanks the stage
  and its log, the only fields a repeated \<open>LocalHandler.close\<close> writes.
\<close>

datatype close_call = CloseSession | CloseRemoteTCP | CloseRemoteUDP

fun call_close :: "close_call \<Rightarrow> world \<Rightarrow> world" where
  "call_close CloseSession w = LocalHandler_close w"
| "call_close CloseRemoteTCP w = RemoteTCP_close w"
| "call_close CloseRemoteUDP w = state_of (RemoteUDP_close w)"

fun closes :: "close_call list \<Rightarrow> world \<Rightarrow> world" where
  "closes [] w = w"
| "closes (c # cs) w = closes cs (call_close c w)"

definition remote_tcp_closing :: "world \<Rightarrow> bool" where
  "remote_tcp_closing w = (case remote_tcp w of None \<Rightarrow> False | Some r \<Rightarrow> rt_is_closing r)"

definition remote_udp_closing :: "world \<Rightarrow> bool" where
  "remote_udp_closing w = (case remote_udp w of None \<Rightarrow> False | Some r \<Rightarrow> ru_is_closing r)"

definition closed_halves :: "world \<Rightarrow> int" where
  "closed_halves w = (if l_is_closing (session w) then 1 else 0)
                   + (if remote_tcp_closing w then 1 else 0)"

definition user_tcp_calls :: "world \<Rightarrow> int list option" where
  "user_tcp_calls w = map_option c_tcp_num_calls (l_cipher (session w))"

definition forget_stage :: "world \<Rightarrow> world" where
  "forget_stage w = w\<lparr>session := (session w)\<lparr>l_stage := None, l_stage_log := []\<rparr>\<rparr>"

fun half_latched :: "close_call \<Rightarrow> world \<Rightarrow> bool" where
  "half_latched CloseSession w = l_is_closing (session w)"
| "half_latched CloseRemoteTCP w = remote_tcp_closing w"
| "half_latched CloseRemoteUDP w = remote_udp_closing w"

fun half_present :: "close_call \<Rightarrow> world \<Rightarrow> bool" where
  "half_present CloseSession w = True"
| "half_present CloseRemoteTCP w = (remote_tcp w \<noteq> None)"
| "half_present CloseRemoteUDP w = (remote_udp w \<noteq> None)"

definition tcp_session :: "world \<Rightarrow> bool" where
  "tcp_session w = (l_transport_protocol (session w) = Some TRANSPORT_TCP)"

text \<open>More example states: a connected TCP pair, and a UDP Session with a RemoteUDP.\<close>

definition upstream_peer :: endpoint where
  "upstream_peer = (''93.184.216.34'', 80)"

definition tcp_linked :: world where
  "tcp_linked = run example_parse_header id
     [LocalData (Decrypted (example_header @ [72, 73])), RemoteConnectionMade (Some upstream_peer),
      ConnectReturned] tcp_start"

definition udp_pair :: world where
  "udp_pair = RemoteUDP_connection_made new_transport (Some (''8.8.8.8'', 53))
                (state_of (RemoteUDP_init [81] udp_start))"

definition both_closed :: "world \<Rightarrow> bool" where
  "both_closed w = (l_is_closing (session w) \<and> remote_tcp_closing w)"

text \<open>
  What one more \<open>close()\<close> call leaves of a transport attribute: nothing to call on
  \<open>None\<close>, one more recorded call on a transport.
\<close>

definition close_called :: "transport option \<Rightarrow> transport option" where
  "close_called = map_option (\<lambda>t. t\<lparr>t_close_calls := Suc (t_close_calls t)\<rparr>)"

text \<open>
  The halves that hold one unit of the gauge, the gauge minus those units, event
  sequences the loop can deliver, and a run of datagrams from one client endpoint
  through \<open>LocalUDP.datagram_received\<close>.
\<close>

definition open_halves :: "world \<Rightarrow> int" where
  "open_halves w = (if l_is_closing (session w) then 0 else 1)
                 + (case remote_tcp w of None \<Rightarrow> 0 | Some r \<Rightarrow> if rt_is_closing r then 0 else 1)"

fun deliverable :: "(bytes \<Rightarrow> header) \<Rightarrow> (bytes \<Rightarrow> bytes) \<Rightarrow> event list \<Rightarrow> world \<Rightarrow> bool" where
  "deliverable ph enc [] w = True"
| "deliverable ph enc (e # es) w =
     (enabled e w \<and> deliverable ph enc es (state_of (step ph enc e w)))"

definition udp_deliver ::
  "(nat \<Rightarrow> transport_protocol option \<Rightarrow> cipher option) \<Rightarrow> (bytes \<Rightarrow> header) \<Rightarrow> endpoint \<Rightarrow>
   decrypt_outcome list \<Rightarrow> local_udp \<Rightarrow> local_udp" where
  "udp_deliver gcbp ph peer ds u = fold (\<lambda>d. LocalUDP_datagram_received gcbp ph d peer) ds u"

definition udp_closed :: "local_udp \<Rightarrow> endpoint \<Rightarrow> int" where
  "udp_closed u peer =
     (case u_protocols u peer of None \<Rightarrow> 0 | Some h \<Rightarrow> if l_is_closing h then 1 else 0)"

definition balance :: "world \<Rightarrow> int" where
  "balance w = ACTIVE_CONNECTION_COUNT w - open_halves w"

text \<open>
  More examples: an empty UDP acceptor, the values of \<open>inet_pton\<close> at two addresses,
  and a UDP Session with a RemoteUDP whose peer is an IPv6 endpoint.
\<close>

definition udp_server_start :: local_udp where
  "udp_server_start =
     \<lparr>u_port = 8388, u_protocols = Map.empty, u_transport = Some new_transport,
      u_active = 0, u_made = 0\<rparr>"

definition example_pton :: "address_family \<Rightarrow> string \<Rightarrow> bytes option" where
  "example_pton fam a =
     (if fam = AF_INET \<and> a = ''8.8.8.8'' then Some [8, 8, 8, 8]
      else if fam = AF_INET6 \<and> a = ''2001:db8::1''
      then Some [0x20, 0x01, 0x0d, 0xb8, 0, 0, 0, 0, 0, 0, 0, 0, 0, 0, 0, 1]
      else None)"

definition udp_pair6 :: world where
  "udp_pair6 = RemoteUDP_connection_made new_transport (Some (''2001:db8::1'', 53))
                 (state_of (RemoteUDP_init [81] udp_start))"

text \<open>
  Byte order on TCP. \<open>in_gap\<close>: \<open>RemoteTCP.connection_made\<close> has run and
  \<open>self._remote\<close> is not assigned yet. \<open>payload_of\<close>: the post-header payload that
  one client chunk delivers (in INIT the bytes after the header, later the whole
  chunk); \<open>delivered\<close> concatenates it along a sequence of events. \<open>gap_free\<close>: no
  chunk with payload is handled in the gap. \<open>upstream_bytes\<close>: everything written to
  the upstream transport, concatenated; \<open>pending_bytes\<close>: the connect buffer, as long
  as no RemoteTCP is connected. \<open>tcp_inv\<close> is the invariant of an open TCP Session.
\<close>

definition in_gap :: "world \<Rightarrow> bool" where
  "in_gap w = (remote_tcp w \<noteq> None \<and> \<not> l_remote (session w))"

fun payload_of :: "(bytes \<Rightarrow> header) \<Rightarrow> event \<Rightarrow> world \<Rightarrow> bytes" where
  "payload_of ph (LocalData (Decrypted d)) w =
     (case l_stage (session w) of
        Some STAGE_INIT \<Rightarrow>
          (case all_fields (ph d) of None \<Rightarrow> [] | Some (a, h, p, n) \<Rightarrow> slice_from n d)
      | Some STAGE_CONNECT \<Rightarrow> d
      | Some STAGE_STREAM \<Rightarrow> d
      | _ \<Rightarrow> [])"
| "payload_of ph _ w = []"

fun delivered :: "(bytes \<Rightarrow> header) \<Rightarrow> (bytes \<Rightarrow> bytes) \<Rightarrow> event list \<Rightarrow> world \<Rightarrow> bytes" where
  "delivered ph enc [] w = []"
| "delivered ph enc (e # es) w =
     payload_of ph e w @ delivered ph enc es (state_of (step ph enc e w))"


definition upstream_bytes :: "world \<Rightarrow> bytes" where
  "upstream_bytes w =
     (case remote_tcp w of
        None \<Rightarrow> []
      | Some r \<Rightarrow> (case rt_transport r of None \<Rightarrow> [] | Some t \<Rightarrow> concat (t_writes t)))"

definition pending_bytes :: "world \<Rightarrow> bytes" where
  "pending_bytes w = (if remote_tcp w = None then l_connect_buffer (session w) else [])"

definition remote_ok :: "world \<Rightarrow> bool" where
  "remote_ok w =
     (case remote_tcp w of
        None \<Rightarrow> True
      | Some r \<Rightarrow> rt_ready r \<and> \<not> rt_is_closing r
                  \<and> (case rt_transport r of None \<Rightarrow> False | Some t \<Rightarrow> \<not> is_closing t))"

definition tcp_inv :: "world \<Rightarrow> bool" where
  "tcp_inv w =
     (l_transport_protocol (session w) = Some TRANSPORT_TCP
      \<and> (\<not> l_is_closing (session w) \<longrightarrow>
            remote_ok w
            \<and> (l_stage (session w) = Some STAGE_INIT \<and> remote_tcp w = None
                 \<and> \<not> l_remote (session w) \<and> connecting w = None
                 \<and> l_connect_buffer (session w) = []
               \<or> l_stage (session w) = Some STAGE_CONNECT
                 \<and> (l_remote (session w) \<longrightarrow> remote_tcp w \<noteq> None)
               \<or> l_stage (session w) = Some STAGE_STREAM
                 \<and> l_remote (session w) \<and> remote_tcp w \<noteq> None)))"

definition out_bytes :: "world \<Rightarrow> bytes" where
  "out_bytes w = upstream_bytes w @ pending_bytes w"

text \<open>Two runs of one TCP Session, and the state inside the gap of the second.\<close>

definition hello :: bytes where "hello = [72, 69, 76, 76, 79]"
definition world_bytes :: bytes where "world_bytes = [32, 87, 79, 82, 76, 68]"

definition in_order_events :: "event list" where
  "in_order_events =
     [LocalData (Decrypted (example_header @ hello)), LocalData (Decrypted world_bytes),
      RemoteConnectionMade (Some upstream_peer), ConnectReturned, LocalData (Decrypted [33])]"

definition gap_events :: "event list" where
  "gap_events =
     [LocalData (Decrypted (example_header @ hello)), RemoteConnectionMade (Some upstream_peer),
      LocalData (Decrypted world_bytes), ConnectReturned, LocalData (Decrypted [33])]"

definition gap_state :: world where
  "gap_state = run example_parse_header id
     [LocalData (Decrypted (example_header @ hello)), RemoteConnectionMade (Some upstream_peer)]
     tcp_start"

section \<open>The two close functions without recursion\<close>

declare LocalHandler_close.simps [simp del] RemoteTCP_close.simps [simp del]

lemma set_stage_latch [simp]: "l_is_closing (session (set_stage st w)) = l_is_closing (session w)"
  by (simp add: set_stage_def)

lemma LocalHandler_close_latched:
  "l_is_closing (session w) \<Longrightarrow> LocalHandler_close w = set_stage STAGE_DESTROY w"
  by (simp add: LocalHandler_close.simps)

lemma local_close_effects_latch [simp]: "l_is_closing (session (local_close_effects w))"
  by (simp add: local_close_effects_def inc_active_def Let_def)

lemma remote_close_effects_session [simp]: "session (remote_close_effects r w) = session w"
  by (simp add: remote_close_effects_def inc_active_def)

lemma local_close_effects_remote [simp]: "remote_tcp (local_close_effects w) = remote_tcp w"
  by (simp add: local_close_effects_def inc_active_def Let_def)

lemma set_stage_remote [simp]: "remote_tcp (set_stage st w) = remote_tcp w"
  by (simp add: set_stage_def)

lemma local_close_effects_l_remote [simp]:
  "l_remote (session (local_close_effects w)) = l_remote (session w)"
  by (simp add: local_close_effects_def inc_active_def Let_def)

lemma set_stage_l_remote [simp]: "l_remote (session (set_stage st w)) = l_remote (session w)"
  by (simp add: set_stage_def)

lemma remote_close_effects_remote [simp]:
  "remote_tcp (remote_close_effects r w) =
     Some (r\<lparr>rt_is_closing := True, rt_transport := map_option transport_close (rt_transport r)\<rparr>)"
  by (simp add: remote_close_effects_def inc_active_def)

lemma RemoteTCP_close_latched:
  "remote_tcp w = Some r \<Longrightarrow> rt_is_closing r \<Longrightarrow> RemoteTCP_close w = w"
  by (simp add: RemoteTCP_close.simps)

text \<open>
  The first \<open>RemoteTCP.close\<close> marks the Remote, then runs the Session's close, whose
  own call back into the Remote meets the latch.
\<close>

lemma RemoteTCP_close_unfold:
  "RemoteTCP_close w =
     (case remote_tcp w of
        None \<Rightarrow> w
      | Some r \<Rightarrow>
          if rt_is_closing r then w
          else if l_is_closing (session w) then set_stage STAGE_DESTROY (remote_close_effects r w)
          else local_close_effects (set_stage STAGE_DESTROY (remote_close_effects r w)))"
proof (cases "remote_tcp w")
  case None
  then show ?thesis by (simp add: RemoteTCP_close.simps)
next
  case (Some r)
  show ?thesis
  proof (cases "rt_is_closing r")
    case True
    with Some show ?thesis by (simp add: RemoteTCP_close.simps)
  next
    case False
    let ?w1 = "remote_close_effects r w"
    have first: "RemoteTCP_close w = LocalHandler_close ?w1"
      using Some False by (simp add: RemoteTCP_close.simps)
    show ?thesis
    proof (cases "l_is_closing (session w)")
      case True
      then show ?thesis using Some False first by (simp add: LocalHandler_close_latched)
    next
      case lopen: False
      let ?w2 = "local_close_effects (set_stage STAGE_DESTROY ?w1)"
      have "RemoteTCP_close ?w2 = ?w2"
        by (rule RemoteTCP_close_latched
              [where r = "r\<lparr>rt_is_closing := True,
                            rt_transport := map_option transport_close (rt_transport r)\<rparr>"])
           simp_all
      then have "LocalHandler_close ?w1 = ?w2"
        using lopen by (subst LocalHandler_close.simps) (simp add: Let_def)
      then show ?thesis using Some False lopen first by simp
    qed
  qed
qed

lemma LocalHandler_close_unfold:
  "LocalHandler_close w =
     (if l_is_closing (session w) then set_stage STAGE_DESTROY w
      else let w1 = local_close_effects (set_stage STAGE_DESTROY w)
           in if l_remote (session w)
              then (case remote_tcp w of
                      None \<Rightarrow> w1
                    | Some r \<Rightarrow>
                        if rt_is_closing r then w1
                        else set_stage STAGE_DESTROY (remote_close_effects r w1))
              else w1)"
  by (subst LocalHandler_close.simps)
     (simp add: RemoteTCP_close_unfold Let_def split: option.splits)

section \<open>Facts about the handlers\<close>

lemmas close_defs = local_close_effects_def remote_close_effects_def set_stage_def inc_active_def

lemma LocalHandler_close_stage [simp]:
  "l_stage (session (LocalHandler_close w)) = Some STAGE_DESTROY"
  by (simp add: LocalHandler_close_unfold close_defs Let_def split: option.splits)

lemma LocalHandler_close_closing [simp]:
  "l_is_closing (session (LocalHandler_close w))"
  by (simp add: LocalHandler_close_unfold close_defs Let_def split: option.splits)

lemma LocalHandler_close_connecting [simp]:
  "connecting (LocalHandler_close w) = connecting w"
  by (simp add: LocalHandler_close_unfold close_defs Let_def split: option.splits)

lemma LocalHandler_close_remote_udp [simp]:
  "remote_udp (LocalHandler_close w) = remote_udp w"
  by (simp add: LocalHandler_close_unfold close_defs Let_def split: option.splits)

lemma LocalHandler_close_made [simp]:
  "CONNECTION_MADE_COUNT (LocalHandler_close w) = CONNECTION_MADE_COUNT w"
  by (simp add: LocalHandler_close_unfold close_defs Let_def split: option.splits)

lemma LocalHandler_close_log:
  "\<exists>n. l_stage_log (session (LocalHandler_close w)) =
        l_stage_log (session w) @ replicate (Suc n) STAGE_DESTROY"
proof -
  have "l_stage_log (session (LocalHandler_close w)) = l_stage_log (session w) @ replicate (Suc 0) STAGE_DESTROY
     \<or> l_stage_log (session (LocalHandler_close w)) = l_stage_log (session w) @ replicate (Suc 1) STAGE_DESTROY"
    by (simp add: LocalHandler_close_unfold close_defs Let_def split: option.splits)
  then show ?thesis by blast
qed


lemma stage_rank_le_5 [simp]: "stage_rank s \<le> 5"
  by (cases s rule: stage_rank.cases) simp_all

lemma LocalHandler_write_session_stage [simp]:
  "l_stage (session (state_of (LocalHandler_write d w))) = l_stage (session w)"
  by (simp add: LocalHandler_write_def split: option.splits)

lemma RemoteTCP_write_session [simp]:
  "session (state_of (RemoteTCP_write d w)) = session w"
  by (simp add: RemoteTCP_write_def split: option.splits)

lemma handle_stage_stream_session [simp]:
  "session (state_of (handle_stage_stream d w)) = session w"
  by (simp add: handle_stage_stream_def)

lemma handle_stage_connect_stage:
  "l_stage (session (state_of (handle_stage_connect d w))) = l_stage (session w)
   \<or> l_stage (session (state_of (handle_stage_connect d w))) = Some STAGE_STREAM"
  by (simp add: handle_stage_connect_def set_stage_def)

lemma handle_stage_connect_rank:
  "2 \<le> stage_rank (l_stage (session w)) \<Longrightarrow> stage_rank (l_stage (session w)) \<le> 3 \<Longrightarrow>
   stage_rank (l_stage (session w)) \<le> stage_rank (l_stage (session (state_of (handle_stage_connect d w))))"
  using handle_stage_connect_stage [of d w] by auto



lemma connect_failed_stage [simp]: "l_stage (session (connect_failed w)) = Some STAGE_DESTROY"
  by (simp add: connect_failed_def)

lemma connect_returned_stage [simp]:
  "l_stage (session (state_of (connect_returned w))) = l_stage (session w)"
  by (simp add: connect_returned_def Let_def split: option.splits)

lemma RemoteTCP_connection_made_session [simp]:
  "session (RemoteTCP_connection_made tr peer w) = session w"
  by (simp add: RemoteTCP_connection_made_def inc_active_def inc_made_def split: option.splits)




lemmas eval_defs = tcp_start_def udp_start_def LocalTCP_connection_made_def handle_connection_made_def
  init_cipher_def init_transport_def set_stage_def inc_active_def inc_made_def
  fresh_world_def LocalHandler_init_def example_gcbp_def example_cipher_def
  example_parse_header_def example_header_def client_peer_def new_transport_def
  handle_data_received_def handle_stage_init_def handle_stage_connect_def
  handle_stage_stream_def remote_not_ready_def slice_from_def LocalHandler_close_unfold
  RemoteTCP_close_unfold local_close_effects_def remote_close_effects_def
  connect_failed_def connect_returned_def handle_eof_received_def handle_connection_lost_def
  RemoteTCP_init_def RemoteTCP_connection_made_def RemoteTCP_data_received_def
  RemoteTCP_eof_received_def RemoteTCP_connection_lost_def RemoteTCP_write_def
  LocalHandler_write_def is_closing_def transport_close_def transport_write_def
  transport_sendto_def incr_user_tcp_num_def record_user_ip_def Let_def

lemmas acc_defs = closed_halves_def remote_tcp_closing_def remote_udp_closing_def user_tcp_calls_def
  forget_stage_def tcp_session_def RemoteUDP_close_def incr_user_tcp_num_def

lemma call_close_gauge:
  "ACTIVE_CONNECTION_COUNT (call_close c w) + closed_halves (call_close c w)
     = ACTIVE_CONNECTION_COUNT w + closed_halves w"
  by (cases c)
     (auto simp: LocalHandler_close_unfold RemoteTCP_close_unfold close_defs acc_defs Let_def
           split: option.splits)

lemma call_close_latches:
  "(l_is_closing (session w) \<longrightarrow> l_is_closing (session (call_close c w)))
   \<and> (remote_tcp_closing w \<longrightarrow> remote_tcp_closing (call_close c w))
   \<and> (remote_udp_closing w \<longrightarrow> remote_udp_closing (call_close c w))
   \<and> tcp_session (call_close c w) = tcp_session w"
  by (cases c)
     (auto simp: LocalHandler_close_unfold RemoteTCP_close_unfold close_defs acc_defs Let_def
           split: option.splits)

lemma call_close_user_tcp:
  "user_tcp_calls (call_close c w)
     = map_option (\<lambda>xs. xs @ (if tcp_session w \<and> \<not> l_is_closing (session w)
                                  \<and> l_is_closing (session (call_close c w)) then [- 1] else []))
         (user_tcp_calls w)"
  by (cases c)
     (auto simp: LocalHandler_close_unfold RemoteTCP_close_unfold close_defs acc_defs Let_def
           option.map_comp comp_def option.map_ident
           split: option.splits)

lemma call_close_latched_noop:
  "half_latched c w \<Longrightarrow> forget_stage (call_close c w) = forget_stage w"
  by (cases c)
     (auto simp: LocalHandler_close_unfold RemoteTCP_close_unfold close_defs acc_defs Let_def
           split: option.splits)

lemma closes_gauge:
  "ACTIVE_CONNECTION_COUNT (closes cs w) + closed_halves (closes cs w)
     = ACTIVE_CONNECTION_COUNT w + closed_halves w"
  by (induction cs arbitrary: w) (simp_all add: call_close_gauge)

lemma closes_latches:
  "(l_is_closing (session w) \<longrightarrow> l_is_closing (session (closes cs w)))
   \<and> (remote_tcp_closing w \<longrightarrow> remote_tcp_closing (closes cs w))
   \<and> (remote_udp_closing w \<longrightarrow> remote_udp_closing (closes cs w))
   \<and> tcp_session (closes cs w) = tcp_session w"
proof (induction cs arbitrary: w)
  case Nil
  show ?case by simp
next
  case (Cons c cs)
  show ?case using call_close_latches [of w c] Cons.IH [of "call_close c w"] by auto
qed

lemma closes_user_tcp:
  "user_tcp_calls (closes cs w)
     = map_option (\<lambda>xs. xs @ (if tcp_session w \<and> \<not> l_is_closing (session w)
                                  \<and> l_is_closing (session (closes cs w)) then [- 1] else []))
         (user_tcp_calls w)"
proof (induction cs arbitrary: w)
  case Nil
  show ?case by (simp add: option.map_ident)
next
  case (Cons c cs)
  let ?w1 = "call_close c w"
  show ?case
    using Cons.IH [of ?w1] call_close_user_tcp [of c w] call_close_latches [of w c]
          closes_latches [of ?w1 cs]
    by (cases "user_tcp_calls w") (auto simp: )
qed

lemma call_close_present:
  "half_present c (call_close c' w) = half_present c w"
  by (cases c; cases c')
     (auto simp: LocalHandler_close_unfold RemoteTCP_close_unfold close_defs acc_defs Let_def
           split: option.splits)

lemma call_close_sets_latch:
  "half_present c w \<Longrightarrow> half_latched c (call_close c w)"
  by (cases c)
     (auto simp: LocalHandler_close_unfold RemoteTCP_close_unfold close_defs acc_defs Let_def
           split: option.splits)

lemma half_latched_kept:
  "half_latched c w \<Longrightarrow> half_latched c (closes cs w)"
  using closes_latches [of w cs] by (cases c) simp_all

lemma closes_sets_latch:
  "c \<in> set cs \<Longrightarrow> half_present c w \<Longrightarrow> half_latched c (closes cs w)"
proof (induction cs arbitrary: w)
  case Nil
  then show ?case by simp
next
  case (Cons c' cs)
  show ?case
  proof (cases "c = c'")
    case True
    then show ?thesis
      using call_close_sets_latch [of c w] Cons.prems half_latched_kept [of c "call_close c w" cs]
      by simp
  next
    case False
    then have "c \<in> set cs" using Cons.prems by simp
    moreover have "half_present c (call_close c' w)"
      using Cons.prems by (simp add: call_close_present)
    ultimately show ?thesis using Cons.IH by simp
  qed
qed

lemma transport_close_fun:
  "transport_close = (\<lambda>t. t\<lparr>t_close_calls := Suc (t_close_calls t)\<rparr>)"
  by (rule ext) (simp add: transport_close_def)

lemmas eval_defs2 = eval_defs acc_defs upstream_peer_def tcp_linked_def udp_pair_def both_closed_def
  RemoteUDP_init_def RemoteUDP_connection_made_def RemoteUDP_write_def

lemma LocalHandler_close_balance [simp]: "balance (LocalHandler_close w) = balance w"
  by (auto simp: balance_def open_halves_def LocalHandler_close_unfold close_defs Let_def
        split: option.splits)

lemma RemoteTCP_close_balance [simp]: "balance (RemoteTCP_close w) = balance w"
  by (auto simp: balance_def open_halves_def RemoteTCP_close_unfold close_defs Let_def
        split: option.splits)

lemma set_stage_balance [simp]: "balance (set_stage st w) = balance w"
  by (simp add: balance_def open_halves_def set_stage_def)

lemma RemoteTCP_write_balance [simp]: "balance (state_of (RemoteTCP_write d w)) = balance w"
  by (auto simp: balance_def open_halves_def RemoteTCP_write_def split: option.splits)

lemma LocalHandler_write_balance [simp]: "balance (state_of (LocalHandler_write d w)) = balance w"
  by (auto simp: balance_def open_halves_def LocalHandler_write_def split: option.splits)

lemma handle_stage_stream_balance [simp]: "balance (state_of (handle_stage_stream d w)) = balance w"
  by (simp add: handle_stage_stream_def)

lemma handle_stage_connect_balance [simp]: "balance (state_of (handle_stage_connect d w)) = balance w"
  by (simp add: handle_stage_connect_def) (simp add: balance_def open_halves_def)

lemma connecting_update_balance [simp]: "balance (w\<lparr>connecting := x\<rparr>) = balance w"
  by (simp add: balance_def open_halves_def)

lemma handle_stage_init_balance [simp]: "balance (state_of (handle_stage_init ph d w)) = balance w"
proof (cases "all_fields (ph d)")
  case None
  then show ?thesis by (simp add: handle_stage_init_def)
next
  case (Some f)
  obtain a h p n where f: "f = (a, h, p, n)" by (cases f) auto
  show ?thesis
  proof (cases "handle_stage_connect (slice_from n d) (set_stage STAGE_CONNECT w)")
    case (Ok w')
    then have "balance w' = balance w"
      using handle_stage_connect_balance [of "slice_from n d" "set_stage STAGE_CONNECT w"] by simp
    then show ?thesis using Some f Ok by (simp add: handle_stage_init_def)
  next
    case (Raised e w')
    then have "balance w' = balance w"
      using handle_stage_connect_balance [of "slice_from n d" "set_stage STAGE_CONNECT w"] by simp
    then show ?thesis using Some f Raised by (simp add: handle_stage_init_def)
  qed
qed

lemma handle_data_received_balance [simp]:
  "balance (state_of (handle_data_received ph dec w)) = balance w"
  by (simp add: handle_data_received_def split: option.splits decrypt_outcome.splits stage.splits)

lemma step_balance:
  "enabled e w \<Longrightarrow> balance (state_of (step ph enc e w)) = balance w"
proof (cases e)
  case (RemoteConnectionMade peer)
  assume "enabled e w"
  then have none: "remote_tcp w = None" using RemoteConnectionMade by simp
  show ?thesis
  proof (cases "l_cipher (session w)")
    case None
    then show ?thesis using RemoteConnectionMade
      by (simp add: RemoteTCP_init_def connect_failed_def)
  next
    case (Some c)
    then show ?thesis using RemoteConnectionMade none
      by (simp add: RemoteTCP_init_def RemoteTCP_connection_made_def balance_def open_halves_def
            inc_active_def inc_made_def)
  qed
next
  case ConnectReturned
  then show ?thesis
    by (simp add: connect_returned_def Let_def balance_def open_halves_def split: option.splits)
qed (simp_all add: handle_eof_received_def handle_connection_lost_def connect_failed_def
       RemoteTCP_data_received_def RemoteTCP_eof_received_def RemoteTCP_connection_lost_def)

lemma run_balance:
  "deliverable ph enc es w \<Longrightarrow> balance (run ph enc es w) = balance w"
  by (induction es arbitrary: w) (simp_all add: step_balance)

lemma LocalHandler_close_no_remote [simp]:
  "(remote_tcp (LocalHandler_close w) = None) = (remote_tcp w = None)"
  by (auto simp: LocalHandler_close_unfold close_defs Let_def split: option.splits)

lemma handle_stage_connect_no_remote [simp]:
  "(remote_tcp (state_of (handle_stage_connect d w)) = None) = (remote_tcp w = None)"
  by (auto simp: handle_stage_connect_def handle_stage_stream_def RemoteTCP_write_def set_stage_def
        split: option.splits)

lemma handle_stage_init_no_remote [simp]:
  "(remote_tcp (state_of (handle_stage_init ph d w)) = None) = (remote_tcp w = None)"
proof (cases "all_fields (ph d)")
  case None
  then show ?thesis by (simp add: handle_stage_init_def)
next
  case (Some f)
  obtain a h p n where f: "f = (a, h, p, n)" by (cases f) auto
  show ?thesis
    using Some f handle_stage_connect_no_remote [of "slice_from n d" "set_stage STAGE_CONNECT w"]
    by (cases "handle_stage_connect (slice_from n d) (set_stage STAGE_CONNECT w)")
       (simp_all add: handle_stage_init_def)
qed

lemma handle_data_received_no_remote [simp]:
  "(remote_tcp (state_of (handle_data_received ph dec w)) = None) = (remote_tcp w = None)"
  by (simp add: handle_data_received_def handle_stage_stream_def RemoteTCP_write_def
        split: option.splits decrypt_outcome.splits stage.splits)

lemma datagram_balance:
  "u_active (LocalUDP_datagram_received gcbp ph dec peer u)
     + udp_closed (LocalUDP_datagram_received gcbp ph dec peer u) peer
   = u_active u + udp_closed u peer"
proof -
  define w where "w = (case u_protocols u peer of
              Some handler \<Rightarrow> session_world handler (u_active u) (u_made u)
            | None \<Rightarrow> handle_connection_made gcbp TRANSPORT_UDP (u_transport u) (Some peer)
                        (fresh_world (u_port u) (u_active u) (u_made u)))"
  define w' where "w' = state_of (handle_data_received ph dec w)"
  have b: "balance w' = balance w" by (simp add: w'_def)
  have r: "remote_tcp w = None"
    by (simp add: w_def session_world_def handle_connection_made_def init_cipher_def
          init_transport_def set_stage_def fresh_world_def Let_def split: option.splits)
  then have r': "remote_tcp w' = None" by (simp add: w'_def)
  have before: "ACTIVE_CONNECTION_COUNT w = u_active u
                \<and> (if l_is_closing (session w) then 1 else 0) = udp_closed u peer"
    by (simp add: w_def udp_closed_def session_world_def handle_connection_made_def init_cipher_def
          init_transport_def set_stage_def fresh_world_def LocalHandler_init_def Let_def
          split: option.splits)
  have after: "u_active (LocalUDP_datagram_received gcbp ph dec peer u) = ACTIVE_CONNECTION_COUNT w'
               \<and> udp_closed (LocalUDP_datagram_received gcbp ph dec peer u) peer
                   = (if l_is_closing (session w') then 1 else 0)"
    by (simp add: LocalUDP_datagram_received_def Let_def udp_closed_def w'_def w_def)
  show ?thesis
    using b r r' before after by (simp add: balance_def open_halves_def split: if_splits)
qed

lemma udp_deliver_balance:
  "u_active (udp_deliver gcbp ph peer ds u) + udp_closed (udp_deliver gcbp ph peer ds u) peer
   = u_active u + udp_closed u peer"
  unfolding udp_deliver_def
  by (induction ds arbitrary: u) (simp_all add: datagram_balance)

lemmas eval_defs3 = eval_defs2 udp_server_start_def example_pton_def udp_pair6_def
  udp_deliver_def udp_closed_def LocalUDP_datagram_received_def session_world_def
  open_halves_def RemoteUDP_datagram_received_def udp_reply_def pack_H_def

lemma LocalHandler_close_protocol [simp]:
  "l_transport_protocol (session (LocalHandler_close w)) = l_transport_protocol (session w)"
  by (simp add: LocalHandler_close_unfold close_defs Let_def split: option.splits)

lemma tcp_inv_close [simp]: "tcp_inv (LocalHandler_close w) = (l_transport_protocol (session w) = Some TRANSPORT_TCP)"
  by (simp add: tcp_inv_def)

lemmas inv_defs = tcp_inv_def remote_ok_def out_bytes_def upstream_bytes_def pending_bytes_def in_gap_def

lemma handle_stage_connect_frame [simp]:
  "l_transport_protocol (session (state_of (handle_stage_connect d w))) = l_transport_protocol (session w)"
  "l_is_closing (session (state_of (handle_stage_connect d w))) = l_is_closing (session w)"
  by (simp_all add: handle_stage_connect_def set_stage_def)

lemma handle_stage_init_session:
  "session (state_of (handle_stage_init ph d w)) =
     (case all_fields (ph d) of
        None \<Rightarrow> session (LocalHandler_close w)
      | Some (a, h, p, n) \<Rightarrow>
          if l_transport_protocol (session w) = Some TRANSPORT_TCP
          then session (state_of (handle_stage_connect (slice_from n d) (set_stage STAGE_CONNECT w)))
          else session (LocalHandler_close (set_stage STAGE_ERROR w)))"
  by (simp add: handle_stage_init_def split: option.splits result.splits)

lemma set_stage_frame [simp]:
  "l_transport_protocol (session (set_stage st w)) = l_transport_protocol (session w)"
  by (simp add: set_stage_def)

lemma handle_stage_init_frame:
  "l_transport_protocol (session (state_of (handle_stage_init ph d w))) = l_transport_protocol (session w)"
  "l_is_closing (session w) \<Longrightarrow> l_is_closing (session (state_of (handle_stage_init ph d w)))"
  by (simp_all add: handle_stage_init_session split: option.splits)

lemma handle_data_received_frame:
  "l_transport_protocol (session (state_of (handle_data_received ph dec w))) = l_transport_protocol (session w)"
  "l_is_closing (session w) \<Longrightarrow> l_is_closing (session (state_of (handle_data_received ph dec w)))"
  by (simp_all add: handle_data_received_def handle_stage_init_frame
        split: option.splits decrypt_outcome.splits stage.splits)


lemma LocalHandler_write_frame [simp]:
  "l_transport_protocol (session (state_of (LocalHandler_write d w))) = l_transport_protocol (session w)"
  "l_is_closing (session (state_of (LocalHandler_write d w))) = l_is_closing (session w)"
  by (simp_all add: LocalHandler_write_def split: option.splits)


lemma tcp_inv_closing:
  "l_is_closing (session w) \<Longrightarrow> tcp_inv w = (l_transport_protocol (session w) = Some TRANSPORT_TCP)"
  by (simp add: tcp_inv_def)












lemma datagram_latch_kept:
  "udp_closed u peer \<le> udp_closed (LocalUDP_datagram_received gcbp ph dec peer u) peer"
proof (cases "u_protocols u peer")
  case None
  then show ?thesis
    by (simp add: udp_closed_def LocalUDP_datagram_received_def Let_def)
next
  case (Some h)
  show ?thesis
    using Some handle_data_received_frame(2) [of "session_world h (u_active u) (u_made u)" ph dec]
    by (simp add: udp_closed_def LocalUDP_datagram_received_def Let_def session_world_def)
qed

lemma datagram_never_increments:
  "u_active (LocalUDP_datagram_received gcbp ph dec peer u) \<le> u_active u"
  using datagram_balance [of gcbp ph dec peer u] datagram_latch_kept [of u peer gcbp ph dec]
  by linarith

lemma remote_udp_keeps_gauge:
  "ACTIVE_CONNECTION_COUNT (RemoteUDP_connection_made tr peer w) = ACTIVE_CONNECTION_COUNT w
   \<and> ACTIVE_CONNECTION_COUNT (state_of (RemoteUDP_datagram_received enc pton d q w))
       = ACTIVE_CONNECTION_COUNT w
   \<and> ACTIVE_CONNECTION_COUNT (state_of (RemoteUDP_close w)) = ACTIVE_CONNECTION_COUNT w"
  by (simp add: RemoteUDP_connection_made_def RemoteUDP_datagram_received_def udp_reply_def
        LocalHandler_write_def RemoteUDP_close_def Let_def split: option.splits)

lemma closed_session_ignores_data:
  "l_is_closing (session w) \<Longrightarrow> l_stage (session w) = Some STAGE_DESTROY \<Longrightarrow>
   forget_stage (state_of (handle_data_received ph dec w)) = forget_stage w"
  by (simp add: handle_data_received_def LocalHandler_close_latched forget_stage_def set_stage_def
        split: option.splits decrypt_outcome.splits)

lemmas eval_defs4 = eval_defs3 hello_def world_bytes_def in_order_events_def gap_events_def gap_state_def
  inv_defs

section \<open>Empty decrypt output\<close>

text \<open>
  C9. When the Session has a cipher and \<open>cipher.decrypt\<close> returns empty bytes,
  \<open>handle_data_received\<close> returns at \<open>if not data: return\<close>: the whole state (stage,
  connect buffer, remote, closing latch, both transports, the metrics) is unchanged,
  so nothing is forwarded.
\<close>

theorem decrypt_empty_changes_nothing:
  "l_cipher (session w) = Some c \<Longrightarrow> handle_data_received ph (Decrypted []) w = Ok w"
  by (simp add: handle_data_received_def)

theorem decrypt_empty_changes_nothing_witness:
  "l_cipher (session tcp_start) = Some example_cipher
   \<and> handle_data_received example_parse_header (Decrypted []) tcp_start = Ok tcp_start"
proof -
  have c: "l_cipher (session tcp_start) = Some example_cipher"
    by (simp add: tcp_start_def LocalTCP_connection_made_def handle_connection_made_def
          init_cipher_def init_transport_def set_stage_def inc_active_def inc_made_def
          fresh_world_def LocalHandler_init_def example_gcbp_def Let_def)
  show ?thesis
    using c decrypt_empty_changes_nothing [OF c, of example_parse_header] by simp
qed

section \<open>Stage order\<close>




section \<open>Header parse failure\<close>

text \<open>
  C7, the part that fails. A first chunk whose header does not parse takes the
  Session from INIT straight to DESTROY: the only value assigned to the stage is
  DESTROY, never ERROR.
\<close>

theorem parse_failure_skips_error_stage:
  "all_fields (example_parse_header [2]) = None
   \<and> l_stage (session tcp_start) = Some STAGE_INIT
   \<and> l_stage_log (session (state_of
        (handle_data_received example_parse_header (Decrypted [2]) tcp_start)))
      = [STAGE_INIT, STAGE_DESTROY]"
  by (simp add: eval_defs)

text \<open>
  C7 as amended. In stage INIT, when \<open>parse_header\<close> returns any null field on the
  decrypted (non-empty) data, the handler is exactly one \<open>close()\<close>: the Session ends
  in DESTROY with the latch set, every value assigned to the stage on the way is
  DESTROY, and no connect is started (the coroutine state is untouched).
\<close>

theorem parse_failure_closes_without_connect:
  assumes "l_cipher (session w) = Some c"
    and "l_stage (session w) = Some STAGE_INIT"
    and "data \<noteq> []"
    and "parse_header data = (a, h, p, n)"
    and "a = None \<or> h = None \<or> p = None \<or> n = None"
  shows "handle_data_received parse_header (Decrypted data) w = Ok (LocalHandler_close w)
         \<and> l_stage (session (LocalHandler_close w)) = Some STAGE_DESTROY
         \<and> l_is_closing (session (LocalHandler_close w))
         \<and> (\<exists>k. l_stage_log (session (LocalHandler_close w))
                  = l_stage_log (session w) @ replicate (Suc k) STAGE_DESTROY)
         \<and> connecting (LocalHandler_close w) = connecting w"
proof -
  have "all_fields (parse_header data) = None"
    using assms(4,5) by (cases a; cases h; cases p; cases n) auto
  then have "handle_data_received parse_header (Decrypted data) w = Ok (LocalHandler_close w)"
    using assms(1,2,3) by (simp add: handle_data_received_def handle_stage_init_def)
  then show ?thesis
    using LocalHandler_close_log [of w] by simp
qed

theorem parse_failure_closes_without_connect_witness:
  "handle_data_received example_parse_header (Decrypted [2]) tcp_start
     = Ok (LocalHandler_close tcp_start)
   \<and> l_stage (session (LocalHandler_close tcp_start)) = Some STAGE_DESTROY
   \<and> l_is_closing (session (LocalHandler_close tcp_start))
   \<and> (\<exists>k. l_stage_log (session (LocalHandler_close tcp_start))
            = l_stage_log (session tcp_start) @ replicate (Suc k) STAGE_DESTROY)
   \<and> connecting (LocalHandler_close tcp_start) = connecting tcp_start"
proof -
  have c: "l_cipher (session tcp_start) = Some example_cipher"
    by (simp add: eval_defs)
  have s: "l_stage (session tcp_start) = Some STAGE_INIT"
    by (simp add: eval_defs)
  have p: "example_parse_header [2] = (None, None, None, None)"
    by (simp add: example_parse_header_def)
  show ?thesis
    using parse_failure_closes_without_connect
            [where w = tcp_start and c = example_cipher and data = "[2]"
               and parse_header = example_parse_header
               and a = None and h = None and p = None and n = None] c s p
    by simp
qed

section \<open>Closing\<close>

text \<open>
  C3, the part that fails. On a UDP Session with a RemoteUDP, the first close of the
  Remote half sets its latch and leaves the gauge where it was (\<open>RemoteUDP.close\<close>
  never touches the metrics), and the close of the Session that follows, a call after
  the first, lowers the gauge by one.
\<close>

theorem remote_udp_close_skips_gauge:
  "\<not> remote_udp_closing udp_pair
   \<and> remote_udp_closing (call_close CloseRemoteUDP udp_pair)
   \<and> ACTIVE_CONNECTION_COUNT (call_close CloseRemoteUDP udp_pair) = ACTIVE_CONNECTION_COUNT udp_pair
   \<and> ACTIVE_CONNECTION_COUNT (closes [CloseRemoteUDP, CloseSession] udp_pair)
       = ACTIVE_CONNECTION_COUNT (closes [CloseRemoteUDP] udp_pair) - 1"
  by (simp add: eval_defs2)

text \<open>
  C3 as amended. For any sequence of close calls on the Session, a RemoteTCP and a
  RemoteUDP, in any order and from any state: the gauge falls by exactly the number of
  Session and RemoteTCP latches that the calls set (once per such half, never for a
  RemoteUDP); no latch is ever reset and every half that was called ends latched;
  \<open>incr_user_tcp_num\<close> receives exactly one \<open>-1\<close>
  when the calls latch a TCP Session and nothing otherwise; and a call on a half
  whose latch is set changes no metric, transport, cipher or object, only the stage
  assignment of \<open>LocalHandler.close\<close>.
\<close>

theorem close_any_number_of_times:
  "ACTIVE_CONNECTION_COUNT (closes cs w) + closed_halves (closes cs w)
     = ACTIVE_CONNECTION_COUNT w + closed_halves w
   \<and> (\<forall>c. half_latched c w \<longrightarrow> half_latched c (closes cs w))
   \<and> (\<forall>c \<in> set cs. half_present c w \<longrightarrow> half_latched c (closes cs w))
   \<and> user_tcp_calls (closes cs w)
       = map_option (\<lambda>xs. xs @ (if tcp_session w \<and> \<not> l_is_closing (session w)
                                    \<and> l_is_closing (session (closes cs w)) then [- 1] else []))
           (user_tcp_calls w)
   \<and> (half_latched c v \<longrightarrow> forget_stage (call_close c v) = forget_stage v)"
proof -
  have "half_latched c' w \<longrightarrow> half_latched c' (closes cs w)" for c'
    using closes_latches [of w cs] by (cases c') simp_all
  moreover have "\<forall>c' \<in> set cs. half_present c' w \<longrightarrow> half_latched c' (closes cs w)"
    using closes_sets_latch [of _ cs w] by blast
  ultimately show ?thesis
    using closes_gauge [of cs w] closes_user_tcp [of cs w] call_close_latched_noop [of c v]
    by blast
qed

theorem close_any_number_of_times_witness:
  "ACTIVE_CONNECTION_COUNT tcp_linked = 2 \<and> closed_halves tcp_linked = 0
   \<and> ACTIVE_CONNECTION_COUNT (closes [CloseSession, CloseRemoteTCP, CloseSession] tcp_linked) = 0
   \<and> closed_halves (closes [CloseSession, CloseRemoteTCP, CloseSession] tcp_linked) = 2
   \<and> user_tcp_calls tcp_linked = Some []
   \<and> user_tcp_calls (closes [CloseSession, CloseRemoteTCP, CloseSession] tcp_linked) = Some [- 1]
   \<and> half_present CloseRemoteTCP tcp_linked
   \<and> half_latched CloseRemoteTCP (closes [CloseSession, CloseRemoteTCP, CloseSession] tcp_linked)
   \<and> half_latched CloseRemoteTCP (closes [CloseSession] tcp_linked)
   \<and> forget_stage (call_close CloseRemoteTCP (closes [CloseSession] tcp_linked))
       = forget_stage (closes [CloseSession] tcp_linked)"
proof -
  have p: "half_present CloseRemoteTCP tcp_linked"
    by (simp add: eval_defs2)
  have h: "half_latched CloseRemoteTCP (closes [CloseSession] tcp_linked)"
    by (simp add: eval_defs2)
  have e: "ACTIVE_CONNECTION_COUNT tcp_linked = 2 \<and> closed_halves tcp_linked = 0
     \<and> closed_halves (closes [CloseSession, CloseRemoteTCP, CloseSession] tcp_linked) = 2
     \<and> user_tcp_calls tcp_linked = Some []
     \<and> tcp_session tcp_linked \<and> \<not> l_is_closing (session tcp_linked)
     \<and> l_is_closing (session (closes [CloseSession, CloseRemoteTCP, CloseSession] tcp_linked))"
    by (simp add: eval_defs2)
  show ?thesis
    using close_any_number_of_times
            [of "[CloseSession, CloseRemoteTCP, CloseSession]" tcp_linked CloseRemoteTCP
                "closes [CloseSession] tcp_linked"] h e p
    by simp
qed

text \<open>
  C4, the part that fails. On a UDP Session with a RemoteUDP neither close reaches
  the other half: after \<open>RemoteUDP.close\<close> the Session's latch is still unset, and
  after \<open>LocalHandler.close\<close> the RemoteUDP's latch is still unset.
\<close>

theorem udp_close_does_not_propagate:
  "\<not> l_is_closing (session udp_pair) \<and> \<not> remote_udp_closing udp_pair
   \<and> remote_udp_closing (state_of (RemoteUDP_close udp_pair))
   \<and> \<not> l_is_closing (session (state_of (RemoteUDP_close udp_pair)))
   \<and> l_is_closing (session (LocalHandler_close udp_pair))
   \<and> \<not> remote_udp_closing (LocalHandler_close udp_pair)"
  by (simp add: eval_defs2)

text \<open>
  C4 as amended. On TCP: the first close of a Session whose \<open>_remote\<close> is assigned
  closes the RemoteTCP (its latch is set and \<open>close()\<close> is called on its transport),
  and the first close of a RemoteTCP closes its Session (latch set, \<open>close()\<close> called
  on the client transport); the latches end the mutual calls after one round (the
  stage log gains one DESTROY per entry into \<open>LocalHandler.close\<close>: two when the
  Session starts, one when the Remote starts). On UDP: the first \<open>RemoteUDP.close\<close>
  sets its latch, calls \<open>close()\<close> on its own transport and deletes its
  back-reference, and leaves everything else, the Session included, as it was;
  \<open>LocalHandler.close\<close> leaves a RemoteUDP as it was.
\<close>

theorem close_reaches_the_other_half:
  "(l_remote (session w) \<and> remote_tcp w = Some r \<and> \<not> l_is_closing (session w)
      \<longrightarrow> both_closed (LocalHandler_close w))
   \<and> (remote_tcp w = Some r \<and> \<not> rt_is_closing r \<longrightarrow> both_closed (RemoteTCP_close w))
   \<and> (l_remote (session w) \<and> remote_tcp w = Some r \<and> \<not> l_is_closing (session w)
        \<and> \<not> rt_is_closing r
      \<longrightarrow> l_stage_log (session (LocalHandler_close w))
            = l_stage_log (session w) @ [STAGE_DESTROY, STAGE_DESTROY])
   \<and> (remote_tcp w = Some r \<and> \<not> rt_is_closing r
      \<longrightarrow> l_stage_log (session (RemoteTCP_close w)) = l_stage_log (session w) @ [STAGE_DESTROY])
   \<and> (tcp_session w \<and> l_remote (session w) \<and> remote_tcp w = Some r
        \<and> \<not> l_is_closing (session w) \<and> \<not> rt_is_closing r
      \<longrightarrow> remote_tcp (LocalHandler_close w)
            = Some (r\<lparr>rt_is_closing := True, rt_transport := close_called (rt_transport r)\<rparr>)
          \<and> l_transport (session (LocalHandler_close w)) = close_called (l_transport (session w)))
   \<and> (tcp_session w \<and> remote_tcp w = Some r
        \<and> \<not> l_is_closing (session w) \<and> \<not> rt_is_closing r
      \<longrightarrow> remote_tcp (RemoteTCP_close w)
            = Some (r\<lparr>rt_is_closing := True, rt_transport := close_called (rt_transport r)\<rparr>)
          \<and> l_transport (session (RemoteTCP_close w)) = close_called (l_transport (session w)))
   \<and> (remote_udp w = Some ru \<and> \<not> ru_is_closing ru \<and> ru_local ru
      \<longrightarrow> RemoteUDP_close w
            = Ok (w\<lparr>remote_udp :=
                      Some (ru\<lparr>ru_is_closing := True,
                               ru_transport := close_called (ru_transport ru),
                               ru_local := False\<rparr>)\<rparr>))
   \<and> session (state_of (RemoteUDP_close w)) = session w
   \<and> remote_udp (LocalHandler_close w) = remote_udp w
   \<and> (close_called (Some t) = Some t'
      \<longrightarrow> is_closing t' \<and> t_close_calls t' = Suc (t_close_calls t))"
  by (auto simp: LocalHandler_close_unfold RemoteTCP_close_unfold close_defs acc_defs Let_def
        both_closed_def close_called_def transport_close_fun is_closing_def split: option.splits)

theorem close_reaches_the_other_half_witness:
  "tcp_session tcp_linked \<and> l_remote (session tcp_linked)
   \<and> \<not> l_is_closing (session tcp_linked)
   \<and> remote_tcp tcp_linked
       = Some \<lparr>rt_peername = Some upstream_peer,
               rt_transport = Some \<lparr>t_close_calls = 0, t_writes = [[72, 73]], t_sendtos = []\<rparr>,
               rt_ready = True, rt_is_closing = False\<rparr>
   \<and> l_transport (session tcp_linked)
       = Some \<lparr>t_close_calls = 0, t_writes = [], t_sendtos = []\<rparr>
   \<and> both_closed (LocalHandler_close tcp_linked)
   \<and> both_closed (RemoteTCP_close tcp_linked)
   \<and> l_stage_log (session (LocalHandler_close tcp_linked))
       = l_stage_log (session tcp_linked) @ [STAGE_DESTROY, STAGE_DESTROY]
   \<and> l_stage_log (session (RemoteTCP_close tcp_linked))
       = l_stage_log (session tcp_linked) @ [STAGE_DESTROY]
   \<and> remote_tcp (LocalHandler_close tcp_linked)
       = Some \<lparr>rt_peername = Some upstream_peer,
               rt_transport = Some \<lparr>t_close_calls = 1, t_writes = [[72, 73]], t_sendtos = []\<rparr>,
               rt_ready = True, rt_is_closing = True\<rparr>
   \<and> l_transport (session (LocalHandler_close tcp_linked))
       = Some \<lparr>t_close_calls = 1, t_writes = [], t_sendtos = []\<rparr>
   \<and> remote_tcp (RemoteTCP_close tcp_linked)
       = Some \<lparr>rt_peername = Some upstream_peer,
               rt_transport = Some \<lparr>t_close_calls = 1, t_writes = [[72, 73]], t_sendtos = []\<rparr>,
               rt_ready = True, rt_is_closing = True\<rparr>
   \<and> l_transport (session (RemoteTCP_close tcp_linked))
       = Some \<lparr>t_close_calls = 1, t_writes = [], t_sendtos = []\<rparr>
   \<and> remote_udp udp_pair
       = Some \<lparr>ru_data = [81], ru_local = True, ru_peername = Some (''8.8.8.8'', 53),
               ru_transport = Some \<lparr>t_close_calls = 0, t_writes = [],
                                      t_sendtos = [([81], None)]\<rparr>,
               ru_is_closing = False\<rparr>
   \<and> RemoteUDP_close udp_pair
       = Ok (udp_pair\<lparr>remote_udp :=
               Some \<lparr>ru_data = [81], ru_local = False, ru_peername = Some (''8.8.8.8'', 53),
                     ru_transport = Some \<lparr>t_close_calls = 1, t_writes = [],
                                            t_sendtos = [([81], None)]\<rparr>,
                     ru_is_closing = True\<rparr>\<rparr>)
   \<and> is_closing \<lparr>t_close_calls = 1, t_writes = [], t_sendtos = []\<rparr>"
proof -
  let ?r = "\<lparr>rt_peername = Some upstream_peer,
             rt_transport = Some \<lparr>t_close_calls = 0, t_writes = [[72, 73]], t_sendtos = []\<rparr>,
             rt_ready = True, rt_is_closing = False\<rparr>"
  let ?ru = "\<lparr>ru_data = [81], ru_local = True, ru_peername = Some (''8.8.8.8'', 53),
              ru_transport = Some \<lparr>t_close_calls = 0, t_writes = [],
                                     t_sendtos = [([81], None)]\<rparr>,
              ru_is_closing = False\<rparr>"
  let ?t = "\<lparr>t_close_calls = 0, t_writes = [], t_sendtos = []\<rparr>"
  let ?t' = "\<lparr>t_close_calls = 1, t_writes = [], t_sendtos = []\<rparr>"
  have h: "tcp_session tcp_linked" "l_remote (session tcp_linked)"
    "\<not> l_is_closing (session tcp_linked)" "remote_tcp tcp_linked = Some ?r"
    "\<not> rt_is_closing ?r" "l_transport (session tcp_linked) = Some ?t"
    by (simp_all add: eval_defs2)
  have u: "remote_udp udp_pair = Some ?ru" "\<not> ru_is_closing ?ru" "ru_local ?ru"
    by (simp_all add: eval_defs2)
  have c: "close_called (Some ?t) = Some ?t'"
    by (simp add: close_called_def)
  have tcp: "both_closed (LocalHandler_close tcp_linked)
     \<and> both_closed (RemoteTCP_close tcp_linked)
     \<and> l_stage_log (session (LocalHandler_close tcp_linked))
         = l_stage_log (session tcp_linked) @ [STAGE_DESTROY, STAGE_DESTROY]
     \<and> l_stage_log (session (RemoteTCP_close tcp_linked))
         = l_stage_log (session tcp_linked) @ [STAGE_DESTROY]
     \<and> remote_tcp (LocalHandler_close tcp_linked)
         = Some (?r\<lparr>rt_is_closing := True, rt_transport := close_called (rt_transport ?r)\<rparr>)
     \<and> l_transport (session (LocalHandler_close tcp_linked))
         = close_called (l_transport (session tcp_linked))
     \<and> remote_tcp (RemoteTCP_close tcp_linked)
         = Some (?r\<lparr>rt_is_closing := True, rt_transport := close_called (rt_transport ?r)\<rparr>)
     \<and> l_transport (session (RemoteTCP_close tcp_linked))
         = close_called (l_transport (session tcp_linked))
     \<and> is_closing ?t'"
    using close_reaches_the_other_half [of tcp_linked ?r _ ?t ?t'] h c by blast
  have udp: "RemoteUDP_close udp_pair
       = Ok (udp_pair\<lparr>remote_udp :=
               Some (?ru\<lparr>ru_is_closing := True, ru_transport := close_called (ru_transport ?ru),
                          ru_local := False\<rparr>)\<rparr>)"
    using close_reaches_the_other_half [of udp_pair _ ?ru] u by blast
  show ?thesis
    using tcp udp h u by (simp add: close_called_def)
qed

section \<open>The gauge on UDP and on TCP\<close>

text \<open>
  C10. Creating a UDP Session (\<open>handle_connection_made\<close> as \<open>LocalUDP\<close> calls it)
  leaves the gauge at its value \<open>g\<close>; the first close of a Session without an
  assigned remote lowers the gauge by one; no call of \<open>LocalUDP.datagram_received\<close>
  raises the gauge, and after any run of datagrams from a new client endpoint the
  gauge is its old value minus one if that Session has closed; the callbacks of
  \<open>RemoteUDP\<close> leave the gauge alone.
  On TCP \<open>LocalTCP.connection_made\<close> raises the gauge to \<open>g + 1\<close>, and after any
  deliverable sequence of events the gauge is \<open>g\<close> plus the number of halves still
  open: it is back at \<open>g\<close> when both halves have closed.
\<close>

theorem udp_gauge_never_incremented:
  "ACTIVE_CONNECTION_COUNT
      (handle_connection_made gcbp TRANSPORT_UDP tr (Some peer) (fresh_world p g m)) = g
   \<and> (\<not> l_is_closing (session w) \<and> \<not> l_remote (session w)
        \<longrightarrow> ACTIVE_CONNECTION_COUNT (LocalHandler_close w) = ACTIVE_CONNECTION_COUNT w - 1)
   \<and> u_active (LocalUDP_datagram_received gcbp ph dec q u) \<le> u_active u
   \<and> (u_protocols u peer = None
        \<longrightarrow> u_active (udp_deliver gcbp ph peer ds u)
            = u_active u - udp_closed (udp_deliver gcbp ph peer ds u) peer)
   \<and> ACTIVE_CONNECTION_COUNT (RemoteUDP_connection_made tr'' peer'' v) = ACTIVE_CONNECTION_COUNT v
   \<and> ACTIVE_CONNECTION_COUNT (state_of (RemoteUDP_datagram_received enc pton d q' v))
       = ACTIVE_CONNECTION_COUNT v
   \<and> ACTIVE_CONNECTION_COUNT (state_of (RemoteUDP_close v)) = ACTIVE_CONNECTION_COUNT v
   \<and> ACTIVE_CONNECTION_COUNT (LocalTCP_connection_made gcbp tr' peer' (fresh_world p g m)) = g + 1
   \<and> (deliverable ph enc es (LocalTCP_connection_made gcbp tr' peer' (fresh_world p g m))
        \<longrightarrow> ACTIVE_CONNECTION_COUNT
              (run ph enc es (LocalTCP_connection_made gcbp tr' peer' (fresh_world p g m)))
            = g + open_halves
                    (run ph enc es (LocalTCP_connection_made gcbp tr' peer' (fresh_world p g m))))"
proof -
  let ?t = "LocalTCP_connection_made gcbp tr' peer' (fresh_world p g m)"
  have a: "ACTIVE_CONNECTION_COUNT
      (handle_connection_made gcbp TRANSPORT_UDP tr (Some peer) (fresh_world p g m)) = g"
    by (simp add: handle_connection_made_def init_cipher_def init_transport_def set_stage_def
          fresh_world_def Let_def)
  have b: "ACTIVE_CONNECTION_COUNT (LocalHandler_close w) = ACTIVE_CONNECTION_COUNT w - 1"
    if "\<not> l_is_closing (session w)" "\<not> l_remote (session w)"
    using that by (simp add: LocalHandler_close_unfold close_defs Let_def)
  have c: "u_active (udp_deliver gcbp ph peer ds u)
            = u_active u - udp_closed (udp_deliver gcbp ph peer ds u) peer"
    if "u_protocols u peer = None"
    using udp_deliver_balance [of gcbp ph peer ds u] that by (simp add: udp_closed_def)
  have t0: "ACTIVE_CONNECTION_COUNT ?t = g + 1 \<and> balance ?t = g"
    by (simp add: LocalTCP_connection_made_def handle_connection_made_def init_cipher_def
          init_transport_def set_stage_def fresh_world_def LocalHandler_init_def inc_active_def
          inc_made_def balance_def open_halves_def Let_def)
  have d: "ACTIVE_CONNECTION_COUNT (run ph enc es ?t) = g + open_halves (run ph enc es ?t)"
    if "deliverable ph enc es ?t"
    using run_balance [OF that] t0 by (simp add: balance_def)
  show ?thesis
    using a b c d t0 datagram_never_increments [of gcbp ph dec q u]
          remote_udp_keeps_gauge [of tr'' peer'' v enc pton d q']
    by blast
qed

theorem udp_gauge_never_incremented_witness:
  "\<not> l_is_closing (session udp_start) \<and> \<not> l_remote (session udp_start)
   \<and> ACTIVE_CONNECTION_COUNT udp_start = 0
   \<and> ACTIVE_CONNECTION_COUNT (LocalHandler_close udp_start) = - 1
   \<and> u_protocols udp_server_start client_peer = None
   \<and> udp_closed (udp_deliver example_gcbp example_parse_header client_peer
         [Decrypted (example_header @ [81])] udp_server_start) client_peer = 1
   \<and> u_active (udp_deliver example_gcbp example_parse_header client_peer
         [Decrypted (example_header @ [81])] udp_server_start) = - 1
   \<and> deliverable example_parse_header id
         [LocalData (Decrypted (example_header @ [72, 73])),
          RemoteConnectionMade (Some upstream_peer), ConnectReturned, LocalEof] tcp_start
   \<and> ACTIVE_CONNECTION_COUNT (run example_parse_header id
         [LocalData (Decrypted (example_header @ [72, 73])),
          RemoteConnectionMade (Some upstream_peer), ConnectReturned, LocalEof] tcp_start) = 0"
proof -
  let ?es = "[LocalData (Decrypted (example_header @ [72, 73])),
              RemoteConnectionMade (Some upstream_peer), ConnectReturned, LocalEof]"
  have e: "\<not> l_is_closing (session udp_start) \<and> \<not> l_remote (session udp_start)
     \<and> ACTIVE_CONNECTION_COUNT udp_start = 0
     \<and> u_protocols udp_server_start client_peer = None
     \<and> u_active udp_server_start = 0
     \<and> udp_closed (udp_deliver example_gcbp example_parse_header client_peer
           [Decrypted (example_header @ [81])] udp_server_start) client_peer = 1
     \<and> deliverable example_parse_header id ?es tcp_start
     \<and> open_halves (run example_parse_header id ?es tcp_start) = 0"
    by (simp add: eval_defs3)
  show ?thesis
    using udp_gauge_never_incremented
            [where w = udp_start and u = udp_server_start and peer = client_peer
               and gcbp = example_gcbp and ph = example_parse_header
               and ds = "[Decrypted (example_header @ [81])]"
               and enc = id and es = ?es and tr' = new_transport and peer' = "Some client_peer"
               and p = 8388 and g = 0 and m = 0] e
    by (simp add: tcp_start_def)
qed

section \<open>UDP replies\<close>

text \<open>
  C5. Whenever \<open>RemoteUDP.datagram_received\<close> gets a datagram from its peer
  \<open>(a, p)\<close> and \<open>a\<close> packs as IPv4 (it contains a dot) or as IPv6 (no dot, a colon),
  the bytes handed to \<open>encrypt\<close> are the byte 0x01, the packed address, the port in
  two bytes high byte first, and the payload; the result goes to the client peer in
  one \<open>sendto\<close>. The first byte is 0x01 for both address families.
\<close>

theorem udp_reply_plaintext:
  assumes "remote_udp w = Some r" and "ru_peername r = Some (a, p)" and "ru_local r"
    and "l_transport_protocol (session w) = Some TRANSPORT_UDP"
    and "l_transport (session w) = Some t"
    and "pack_H p = Some pb"
    and "(CHR ''.'' \<in> set a \<and> pton AF_INET a = Some addr)
         \<or> (CHR ''.'' \<notin> set a \<and> CHR '':'' \<in> set a \<and> pton AF_INET6 a = Some addr)"
  shows "RemoteUDP_datagram_received enc pton data (a, p) w
         = Ok (w\<lparr>session := (session w)
                 \<lparr>l_transport := Some (transport_sendto (enc ([1] @ addr @ pb @ data))
                                          (l_peername (session w)) t)\<rparr>\<rparr>)"
  using assms
  by (auto simp: RemoteUDP_datagram_received_def udp_reply_def LocalHandler_write_def Let_def)

theorem udp_reply_plaintext_witness:
  "RemoteUDP_datagram_received id example_pton [7, 7] (''2001:db8::1'', 53) udp_pair6
   = Ok (udp_pair6\<lparr>session := (session udp_pair6)
           \<lparr>l_transport := Some (transport_sendto
               ([0x01, 0x20, 0x01, 0x0d, 0xb8, 0, 0, 0, 0, 0, 0, 0, 0, 0, 0, 0, 1, 0, 53, 7, 7])
               (Some client_peer) new_transport)\<rparr>\<rparr>)"
proof -
  have h: "remote_udp udp_pair6
             = Some \<lparr>ru_data = [81], ru_local = True, ru_peername = Some (''2001:db8::1'', 53),
                     ru_transport = Some (transport_sendto [81] None new_transport),
                     ru_is_closing = False\<rparr>"
    "l_transport_protocol (session udp_pair6) = Some TRANSPORT_UDP"
    "l_transport (session udp_pair6) = Some new_transport"
    "l_peername (session udp_pair6) = Some client_peer"
    "pack_H 53 = Some [0, 53]"
    "CHR ''.'' \<notin> set ''2001:db8::1'' \<and> CHR '':'' \<in> set ''2001:db8::1''
     \<and> example_pton AF_INET6 ''2001:db8::1''
         = Some [0x20, 0x01, 0x0d, 0xb8, 0, 0, 0, 0, 0, 0, 0, 0, 0, 0, 0, 1]"
    by (simp_all add: eval_defs3)
  show ?thesis
    using udp_reply_plaintext
            [where w = udp_pair6 and a = "''2001:db8::1''" and p = 53 and t = new_transport
               and pb = "[0, 53]" and pton = example_pton and enc = id and data = "[7, 7]"
               and addr = "[0x20, 0x01, 0x0d, 0xb8, 0, 0, 0, 0, 0, 0, 0, 0, 0, 0, 0, 1]"
               and r = "\<lparr>ru_data = [81], ru_local = True,
                          ru_peername = Some (''2001:db8::1'', 53),
                          ru_transport = Some (transport_sendto [81] None new_transport),
                          ru_is_closing = False\<rparr>"] h
    by simp
qed

section \<open>UDP datagrams from the client\<close>

text \<open>
  C8. A UDP Session in stage INIT that receives a non-empty decrypted datagram with a
  valid header runs the \<open>except\<close> branch of \<open>_handle_stage_init\<close>: stage ERROR, then
  close. No RemoteUDP is made, so no datagram goes upstream, and whatever that client
  sends later changes nothing but the stage assignment of \<open>close()\<close>.
\<close>

theorem udp_datagram_is_never_forwarded:
  assumes "l_transport_protocol (session w) = Some TRANSPORT_UDP"
    and "l_stage (session w) = Some STAGE_INIT"
    and "l_cipher (session w) = Some c"
    and "data \<noteq> []"
    and "all_fields (parse_header data) = Some f"
  shows "handle_data_received parse_header (Decrypted data) w
           = Ok (LocalHandler_close (set_stage STAGE_ERROR w))
         \<and> remote_udp (LocalHandler_close (set_stage STAGE_ERROR w)) = remote_udp w
         \<and> connecting (LocalHandler_close (set_stage STAGE_ERROR w)) = connecting w
         \<and> l_is_closing (session (LocalHandler_close (set_stage STAGE_ERROR w)))
         \<and> forget_stage (state_of (handle_data_received parse_header later
                            (LocalHandler_close (set_stage STAGE_ERROR w))))
             = forget_stage (LocalHandler_close (set_stage STAGE_ERROR w))"
proof -
  have "handle_data_received parse_header (Decrypted data) w
           = Ok (LocalHandler_close (set_stage STAGE_ERROR w))"
    using assms by (cases f) (simp add: handle_data_received_def handle_stage_init_def)
  then show ?thesis
    using closed_session_ignores_data
            [of "LocalHandler_close (set_stage STAGE_ERROR w)" parse_header later]
    by (simp add: set_stage_def)
qed

theorem udp_datagram_is_never_forwarded_witness:
  "handle_data_received example_parse_header (Decrypted (example_header @ [81])) udp_start
     = Ok (LocalHandler_close (set_stage STAGE_ERROR udp_start))
   \<and> remote_udp udp_start = None
   \<and> remote_udp (LocalHandler_close (set_stage STAGE_ERROR udp_start)) = None
   \<and> l_is_closing (session (LocalHandler_close (set_stage STAGE_ERROR udp_start)))
   \<and> l_stage_log (session (LocalHandler_close (set_stage STAGE_ERROR udp_start)))
       = [STAGE_INIT, STAGE_ERROR, STAGE_DESTROY]
   \<and> forget_stage (state_of
         (handle_data_received example_parse_header (Decrypted (example_header @ [82]))
            (LocalHandler_close (set_stage STAGE_ERROR udp_start))))
       = forget_stage (LocalHandler_close (set_stage STAGE_ERROR udp_start))"
proof -
  have h: "l_transport_protocol (session udp_start) = Some TRANSPORT_UDP
     \<and> l_stage (session udp_start) = Some STAGE_INIT
     \<and> l_cipher (session udp_start) = Some example_cipher
     \<and> all_fields (example_parse_header (example_header @ [81]))
         = Some (1, ''93.184.216.34'', 80, 7)
     \<and> remote_udp udp_start = None
     \<and> l_stage_log (session (LocalHandler_close (set_stage STAGE_ERROR udp_start)))
         = [STAGE_INIT, STAGE_ERROR, STAGE_DESTROY]"
    by (simp add: eval_defs3)
  show ?thesis
    using udp_datagram_is_never_forwarded
            [where w = udp_start and c = example_cipher and data = "example_header @ [81]"
               and parse_header = example_parse_header and f = "(1, ''93.184.216.34'', 80, 7)"
               and later = "Decrypted (example_header @ [82])"] h
    by (simp add: example_header_def)
qed

section \<open>Byte order on TCP\<close>




section \<open>The connect buffer\<close>

text \<open>
  C2. In the gap (the RemoteTCP is connected and has written the connect buffer,
  \<open>self._remote\<close> is still unassigned) a non-empty chunk in stage CONNECT meets
  \<open>not self._remote\<close> in \<open>_handle_stage_connect\<close>: it is appended to the connect
  buffer and nothing is written upstream, although the chunk carries payload. Only
  \<open>connection_made\<close> reads the buffer, and it has run.
\<close>

theorem chunk_after_drain_is_buffered_and_lost:
  assumes "in_gap w" and "l_stage (session w) = Some STAGE_CONNECT"
    and "l_cipher (session w) = Some c" and "d \<noteq> []"
  shows "handle_data_received ph (Decrypted d) w
         = Ok (w\<lparr>session := (session w)\<lparr>l_connect_buffer := l_connect_buffer (session w) @ d\<rparr>\<rparr>)
         \<and> upstream_bytes (state_of (handle_data_received ph (Decrypted d) w)) = upstream_bytes w
         \<and> payload_of ph (LocalData (Decrypted d)) w = d"
  using assms
  by (simp add: handle_data_received_def handle_stage_connect_def remote_not_ready_def in_gap_def
        upstream_bytes_def)

theorem chunk_after_drain_is_buffered_and_lost_witness:
  "in_gap gap_state \<and> l_stage (session gap_state) = Some STAGE_CONNECT
   \<and> upstream_bytes gap_state = hello
   \<and> handle_data_received example_parse_header (Decrypted world_bytes) gap_state
       = Ok (gap_state\<lparr>session := (session gap_state)
                \<lparr>l_connect_buffer := l_connect_buffer (session gap_state) @ world_bytes\<rparr>\<rparr>)
   \<and> upstream_bytes (state_of
         (handle_data_received example_parse_header (Decrypted world_bytes) gap_state)) = hello
   \<and> deliverable example_parse_header id gap_events tcp_start
   \<and> \<not> l_is_closing (session (run example_parse_header id gap_events tcp_start))
   \<and> l_stage (session (run example_parse_header id gap_events tcp_start)) = Some STAGE_STREAM
   \<and> delivered example_parse_header id gap_events tcp_start = hello @ world_bytes @ [33]
   \<and> upstream_bytes (run example_parse_header id gap_events tcp_start) = hello @ [33]
   \<and> l_connect_buffer (session (run example_parse_header id gap_events tcp_start))
       = hello @ world_bytes"
proof -
  have e: "in_gap gap_state \<and> l_stage (session gap_state) = Some STAGE_CONNECT
     \<and> l_cipher (session gap_state) = Some example_cipher
     \<and> world_bytes \<noteq> []
     \<and> upstream_bytes gap_state = hello
     \<and> deliverable example_parse_header id gap_events tcp_start
     \<and> \<not> l_is_closing (session (run example_parse_header id gap_events tcp_start))
     \<and> l_stage (session (run example_parse_header id gap_events tcp_start)) = Some STAGE_STREAM
     \<and> delivered example_parse_header id gap_events tcp_start = hello @ world_bytes @ [33]
     \<and> upstream_bytes (run example_parse_header id gap_events tcp_start) = hello @ [33]
     \<and> l_connect_buffer (session (run example_parse_header id gap_events tcp_start))
         = hello @ world_bytes"
    by (simp add: eval_defs4)
  show ?thesis
    using chunk_after_drain_is_buffered_and_lost
            [where w = gap_state and c = example_cipher and d = world_bytes
               and ph = example_parse_header] e
    by (simp add: upstream_bytes_def)
qed

end
